theory Spec2Isabelle
  imports Complex_Main
begin

section \<open>Python strings\<close>

text \<open>
  A Python \<open>str\<close> is modelled as a \<open>string\<close>, one \<open>char\<close> for each code point; the
  model covers the code points below 256 (Latin-1), which is what a \<open>char\<close> can hold.
  \<open>len\<close> is \<open>length\<close>. The character classes below are those of \<open>str.isspace\<close>
  (also the regular expression class \<open>\s\<close> on \<open>str\<close> patterns) and of \<open>\d\<close>, restricted to
  that range.
\<close>

definition isspace :: "char \<Rightarrow> bool" where
  "isspace c =
     (let n = (of_char c :: nat)
      in (9 \<le> n \<and> n \<le> 13) \<or> (28 \<le> n \<and> n \<le> 32) \<or> n = 133 \<or> n = 160)"

definition isdigit :: "char \<Rightarrow> bool" where
  "isdigit c = (let n = (of_char c :: nat) in 48 \<le> n \<and> n \<le> 57)"

definition isupper :: "char \<Rightarrow> bool" where
  "isupper c =
     (let n = (of_char c :: nat)
      in (65 \<le> n \<and> n \<le> 90) \<or> (192 \<le> n \<and> n \<le> 222 \<and> n \<noteq> 215))"

text \<open>\<open>str.lower\<close>: below 256 every cased capital is 32 below its small letter.\<close>

definition lower_char :: "char \<Rightarrow> char" where
  "lower_char c = (if isupper c then char_of (of_char c + (32::nat)) else c)"

definition str_lower :: "string \<Rightarrow> string" where
  "str_lower s = map lower_char s"

definition str_lstrip :: "string \<Rightarrow> string" where
  "str_lstrip s = dropWhile isspace s"

definition str_rstrip :: "string \<Rightarrow> string" where
  "str_rstrip s = rev (dropWhile isspace (rev s))"

definition str_strip :: "string \<Rightarrow> string" where
  "str_strip s = str_rstrip (str_lstrip s)"

definition str_startswith :: "string \<Rightarrow> string \<Rightarrow> bool" where
  "str_startswith s p = (take (length p) s = p)"

text \<open>
  \<open>s.split(sep)\<close> for a separator of one character: the pieces between the separators,
  always at least one piece (\<open>''.split(sep)\<close> is \<open>['']\<close>).
\<close>

fun str_split :: "char \<Rightarrow> string \<Rightarrow> string list" where
  "str_split sep [] = [[]]"
| "str_split sep (c # cs) =
     (if c = sep then [] # str_split sep cs
      else (case str_split sep cs of
              [] \<Rightarrow> [[c]]
            | piece # pieces \<Rightarrow> (c # piece) # pieces))"

text \<open>
  The slice \<open>xs[:n]\<close>: the first \<open>n\<close> elements, and for a negative \<open>n\<close> all but the last
  \<open>-n\<close> elements.
\<close>

definition slice_to :: "int \<Rightarrow> 'a list \<Rightarrow> 'a list" where
  "slice_to n xs = (if 0 \<le> n then take (nat n) xs else take (length xs - nat (- n)) xs)"

text \<open>\<open>str(n)\<close> for an integer, as the f-strings use it.\<close>

fun str_nat :: "nat \<Rightarrow> string" where
  "str_nat n =
     (if n < 10 then [char_of (48 + n)] else str_nat (n div 10) @ [char_of (48 + n mod 10)])"

declare str_nat.simps [simp del]

definition str_int :: "int \<Rightarrow> string" where
  "str_int i = (if i < 0 then CHR ''-'' # str_nat (nat (- i)) else str_nat (nat i))"

section \<open>The regular expressions of the response parser\<close>

definition isquote :: "char \<Rightarrow> bool" where
  "isquote c = (c = CHR 0x22 \<or> c = CHR 0x27)"

text \<open>
  \<open>re.sub(r'^["\']|["\']$', '', s)\<close>: a quote character at the very start is removed, and a
  quote character at the end. Without the multi-line flag \<open>$\<close> matches at the end of the
  string and also just before a newline that ends the string.
\<close>

definition sub_quotes :: "string \<Rightarrow> string" where
  "sub_quotes s =
     (let t = (case s of [] \<Rightarrow> [] | c # r \<Rightarrow> if isquote c then r else s)
      in case rev t of
           [] \<Rightarrow> []
         | q # r \<Rightarrow>
             if isquote q then rev r
             else if q = CHR 0x0A then
               (case r of
                  [] \<Rightarrow> t
                | q' # r' \<Rightarrow> if isquote q' then rev r' @ [q] else t)
             else t)"

text \<open>
  \<open>re.sub(r'^\d+\.?\s*', '', line)\<close>: one or more digits at the start of the line, a period
  if one follows, and all white space after that.
\<close>

definition sub_ordinal :: "string \<Rightarrow> string" where
  "sub_ordinal line =
     (case line of
        [] \<Rightarrow> []
      | c # _ \<Rightarrow>
          if isdigit c then
            (let r = dropWhile isdigit line;
                 r' = (case r of [] \<Rightarrow> [] | d # t \<Rightarrow> if d = CHR ''.'' then t else r)
             in dropWhile isspace r')
          else line)"

text \<open>
  \<open>re.sub('^' + label + r'\s*', '', line)\<close> for a literal \<open>label\<close> (\<open>primary:\<close>,
  \<open>alternatives:\<close>, \<open>Summary:\<close>, \<open>Impact:\<close>, \<open>Testing:\<close>). The pattern is matched as it is
  written: no flag makes it ignore case.
\<close>

definition sub_label :: "string \<Rightarrow> string \<Rightarrow> string" where
  "sub_label label line =
     (if str_startswith line label then dropWhile isspace (drop (length label) line)
      else line)"

text \<open>\<open>re.sub(r'[^a-zA-Z0-9/-]', '-', s)\<close>.\<close>

definition branch_char :: "char \<Rightarrow> bool" where
  "branch_char c =
     (let n = (of_char c :: nat)
      in (97 \<le> n \<and> n \<le> 122) \<or> (65 \<le> n \<and> n \<le> 90) \<or> (48 \<le> n \<and> n \<le> 57)
         \<or> c = CHR ''/'' \<or> c = CHR ''-'')"

definition sub_branch_chars :: "string \<Rightarrow> string" where
  "sub_branch_chars s = map (\<lambda>c. if branch_char c then c else CHR ''-'') s"

section \<open>The generation collaborator and the console\<close>

text \<open>
  \<open>client.chat.completions.create\<close> is the call that leaves the program. A request is
  what the call is given; the answer is an exception or a response, of which the program
  reads \<open>response.choices[0].message.content\<close> only, so a response is the list of its
  choices' contents (\<open>None\<close> where a choice has no text). Exceptions are those of class
  \<open>Exception\<close>, which the \<open>except\<close> clauses catch; an exception of the service and a
  \<open>MarkupError\<close> carry their text.

  \<open>console.print\<close> is the \<open>rich\<close> console's: it reads its text as markup, and either
  prints it or raises (\<open>MarkupError\<close>, on a text whose closing tag matches no open tag).
  Which texts it accepts is the library's affair, so the console is given, like the
  client.

  The state \<open>'w\<close> is that of the world outside, the service and the terminal: every call
  and every printed line may change it.
\<close>

datatype exn = APIError string | IndexError | AttributeError | EOFError | MarkupError string

text \<open>\<open>str(e)\<close>, as the f-strings of the error lines use it.\<close>

definition str_exn :: "exn \<Rightarrow> string" where
  "str_exn e =
     (case e of
        APIError text \<Rightarrow> text
      | IndexError \<Rightarrow> ''list index out of range''
      | AttributeError \<Rightarrow> CHR 0x27 # ''NoneType' object has no attribute 'strip'' @ [CHR 0x27]
      | EOFError \<Rightarrow> ''EOF when reading a line''
      | MarkupError text \<Rightarrow> text)"

type_synonym 'w console = "string \<Rightarrow> 'w \<Rightarrow> (exn + unit) \<times> 'w"

record request =
  model :: string
  messages :: "(string \<times> string) list"
  max_tokens :: int
  temperature :: real

type_synonym response = "string option list"

type_synonym 'w client = "request \<Rightarrow> 'w \<Rightarrow> (exn + response) \<times> 'w"

text \<open>\<open>response.choices[0].message.content.strip()\<close>, with the two ways it can raise.\<close>

definition content_strip :: "response \<Rightarrow> exn + string" where
  "content_strip response =
     (case response of
        [] \<Rightarrow> Inl IndexError
      | None # _ \<Rightarrow> Inl AttributeError
      | Some content # _ \<Rightarrow> Inr (str_strip content))"

section \<open>Results\<close>

record commit_result =
  commit_message :: string
  confidence :: real
  suggestions :: "string list"

record branch_result =
  branch_name :: string
  alternatives :: "string list"

record pr_result =
  summary :: string
  impact :: string
  testing_notes :: string

section \<open>Commit messages\<close>

text \<open>
  The style texts are plain strings, not f-strings: the braces of \<open>{max_length}\<close> stay
  in the prompt as they are written.
\<close>

definition conventional_style :: string where
  "conventional_style =
     ''Write a conventional commit message (type: description). Keep it under {max_length} characters.''"

definition style_prompts :: "string \<Rightarrow> string option" where
  "style_prompts = map_of
     [(''conventional'', conventional_style),
      (''detailed'',
         ''Write a detailed commit message explaining the changes comprehensively. Keep it under {max_length} characters.''),
      (''brief'',
         ''Write a brief, concise commit message. Keep it under {max_length} characters.'')]"

definition commit_prompt :: "string \<Rightarrow> string \<Rightarrow> string" where
  \<open>commit_prompt diff_text style =
     ''\<newline>    Analyze this Git diff and create a commit message following these guidelines:\<newline>    - ''
     @ (case style_prompts style of
          Some p \<Rightarrow> p
        | None \<Rightarrow> conventional_style)
     @ ''\<newline>    - Focus on what changed and why\<newline>    - Use imperative mood (e.g., "Add", "Fix", "Update")\<newline>    - Be specific but concise\<newline>    - First line should be the main summary\<newline>\<newline>    Git diff:\<newline>    ''
     @ diff_text
     @ ''\<newline>\<newline>    Return only the commit message, nothing else:\<newline>    ''\<close>

definition commit_request :: "string \<Rightarrow> string \<Rightarrow> request" where
  "commit_request diff_text style =
     \<lparr>model = ''gpt-4o-mini'',
      messages =
        [(''system'', ''You are an expert developer who writes clear, concise Git commit messages.''),
         (''user'', commit_prompt diff_text style)],
      max_tokens = 100,
      temperature = 3 / 10\<rparr>"

definition alternatives_prompt :: "string \<Rightarrow> string \<Rightarrow> int \<Rightarrow> string" where
  "alternatives_prompt diff_text style count =
     ''\<newline>        Generate '' @ str_int count
     @ '' alternative commit messages for this diff.\<newline>        Style: '' @ style
     @ ''\<newline>        Keep each under 50 characters.\<newline>        Return as a numbered list.\<newline>\<newline>        Diff:\<newline>        ''
     @ slice_to 1000 diff_text
     @ ''...  # Truncate for token limits\<newline>        ''"

definition alternatives_request :: "string \<Rightarrow> string \<Rightarrow> int \<Rightarrow> request" where
  "alternatives_request diff_text style count =
     \<lparr>model = ''gpt-4o-mini'',
      messages =
        [(''system'', ''Generate concise commit message alternatives.''),
         (''user'', alternatives_prompt diff_text style count)],
      max_tokens = 150,
      temperature = 5 / 10\<rparr>"

text \<open>
  The numbered list of \<open>generate_alternative_messages\<close>: the loop over the lines of the
  stripped reply, then \<open>suggestions[:count]\<close>.
\<close>

definition alternative_line :: "string \<Rightarrow> string" where
  "alternative_line line = str_strip (sub_ordinal line)"

definition keep_alternative :: "string \<Rightarrow> bool" where
  "keep_alternative line = (line \<noteq> [] \<and> length line \<le> 50)"

definition parse_alternatives :: "string \<Rightarrow> int \<Rightarrow> string list" where
  "parse_alternatives reply count =
     slice_to count
       (filter keep_alternative (map alternative_line (str_split CHR 0x0A reply)))"

definition alternatives_fallback :: "string list" where
  "alternatives_fallback = [''Update files'', ''Add changes'', ''Modify code'']"

definition generate_alternative_messages ::
  "'w client \<Rightarrow> string \<Rightarrow> string \<Rightarrow> int \<Rightarrow> 'w \<Rightarrow> string list \<times> 'w" where
  "generate_alternative_messages client diff_text style count w =
     (case client (alternatives_request diff_text style count) w of
        (Inl e, w') \<Rightarrow> (alternatives_fallback, w')
      | (Inr response, w') \<Rightarrow>
          (case content_strip response of
             Inl e \<Rightarrow> (alternatives_fallback, w')
           | Inr reply \<Rightarrow> (parse_alternatives reply count, w')))"

text \<open>
  The commit message of \<open>generate_commit_message\<close>, from the stripped reply: the quotes
  are removed, and a message longer than \<open>max_length\<close> is cut.
\<close>

definition parse_commit_message :: "string \<Rightarrow> int \<Rightarrow> string" where
  "parse_commit_message reply max_length =
     (let candidate = sub_quotes reply
      in if int (length candidate) > max_length
         then slice_to (max_length - 3) candidate @ ''...''
         else candidate)"

definition commit_nothing :: commit_result where
  "commit_nothing =
     \<lparr>commit_message = ''No changes detected'', confidence = 0, suggestions = []\<rparr>"

definition commit_fallback :: commit_result where
  "commit_fallback =
     \<lparr>commit_message = ''Update project files'', confidence = 0,
      suggestions = [''Add new feature'', ''Fix bug'', ''Update documentation'']\<rparr>"

text \<open>The body of the \<open>try\<close> statement: \<open>Inl\<close> is an exception raised inside it.\<close>

definition commit_try ::
  "'w client \<Rightarrow> string \<Rightarrow> int \<Rightarrow> string \<Rightarrow> 'w \<Rightarrow> (exn + commit_result) \<times> 'w" where
  "commit_try client diff_text max_length style w =
     (case client (commit_request diff_text style) w of
        (Inl e, w1) \<Rightarrow> (Inl e, w1)
      | (Inr response, w1) \<Rightarrow>
          (case content_strip response of
             Inl e \<Rightarrow> (Inl e, w1)
           | Inr reply \<Rightarrow>
               (case generate_alternative_messages client diff_text style 3 w1 of
                  (alts, w2) \<Rightarrow>
                    (Inr \<lparr>commit_message = parse_commit_message reply max_length,
                          confidence = 9 / 10,
                          suggestions = alts\<rparr>, w2))))"

text \<open>
  The line that the \<open>except\<close> clause prints, with the text of the exception between the
  markup tags.
\<close>

definition commit_error_line :: "exn \<Rightarrow> string" where
  "commit_error_line e = ''[red]Error generating commit message: '' @ str_exn e @ ''[/red]''"

text \<open>
  The operation. The \<open>except\<close> clause prints before it returns the fallback, outside any
  \<open>try\<close>: an exception of \<open>console.print\<close> leaves the operation (\<open>Inl\<close>).
\<close>

definition generate_commit_message ::
  "'w console \<Rightarrow> 'w client \<Rightarrow> string \<Rightarrow> int \<Rightarrow> string \<Rightarrow> 'w
     \<Rightarrow> (exn + commit_result) \<times> 'w" where
  "generate_commit_message console client diff_text max_length style w =
     (if str_strip diff_text = [] then (Inr commit_nothing, w)
      else (case commit_try client diff_text max_length style w of
              (Inl e, w1) \<Rightarrow>
                (case console (commit_error_line e) w1 of
                   (Inl e', w2) \<Rightarrow> (Inl e', w2)
                 | (Inr u, w2) \<Rightarrow> (Inr commit_fallback, w2))
            | (Inr result, w1) \<Rightarrow> (Inr result, w1)))"

section \<open>Branch names\<close>

definition branch_prompt :: "string \<Rightarrow> string \<Rightarrow> string" where
  "branch_prompt diff_text context =
     ''\<newline>    Analyze this Git diff and suggest a branch name following these conventions:\<newline>    - Use format: type/short-description (e.g., feature/user-auth, fix/login-bug, refactor/api-endpoints)\<newline>    - Keep it under 30 characters\<newline>    - Use hyphens for spaces\<newline>    - Be descriptive but concise\<newline>\<newline>    Context: ''
     @ context
     @ ''\<newline>\<newline>    Git diff:\<newline>    ''
     @ diff_text
     @ ''\<newline>\<newline>    Suggest one primary branch name and 2-3 alternatives.\<newline>    Return format:\<newline>    Primary: branch-name\<newline>    Alternatives: alt1, alt2, alt3\<newline>    ''"

definition branch_request :: "string \<Rightarrow> string \<Rightarrow> request" where
  "branch_request diff_text context =
     \<lparr>model = ''gpt-4o-mini'',
      messages =
        [(''system'', ''You are an expert at naming Git branches based on code changes.''),
         (''user'', branch_prompt diff_text context)],
      max_tokens = 100,
      temperature = 4 / 10\<rparr>"

text \<open>
  One round of the loop over the reply's lines: the pair is \<open>(primary, alternatives)\<close>.
  The test lowers the line before it compares; the substitution works on the line as it
  is.
\<close>

definition branch_line :: "string \<times> string list \<Rightarrow> string \<Rightarrow> string \<times> string list" where
  "branch_line acc line =
     (case acc of
        (primary, alts) \<Rightarrow>
          if str_startswith (str_lower line) ''primary:''
          then (str_strip (sub_label ''primary:'' line), alts)
          else if str_startswith (str_lower line) ''alternatives:''
          then (primary,
                filter (\<lambda>alt. alt \<noteq> [])
                  (map str_strip
                     (str_split CHR '','' (str_strip (sub_label ''alternatives:'' line)))))
          else acc)"

definition branch_scan :: "string \<Rightarrow> string \<times> string list" where
  "branch_scan content =
     foldl branch_line (''feature/new-feature'', [''feature/alt1'', ''feature/alt2''])
       (str_split CHR 0x0A content)"

text \<open>The clean-up of a branch name: lowered, then every other character a hyphen.\<close>

definition clean_branch_name :: "string \<Rightarrow> string" where
  "clean_branch_name name = sub_branch_chars (str_lower name)"

definition parse_branch_names :: "string \<Rightarrow> branch_result" where
  "parse_branch_names content =
     (case branch_scan content of
        (primary, alts) \<Rightarrow>
          \<lparr>branch_name = clean_branch_name primary,
           alternatives = take 3 (map clean_branch_name alts)\<rparr>)"

definition branch_fallback :: branch_result where
  "branch_fallback =
     \<lparr>branch_name = ''feature/new-changes'',
      alternatives = [''feature/updates'', ''feature/modifications'']\<rparr>"

definition branch_try ::
  "'w client \<Rightarrow> string \<Rightarrow> string \<Rightarrow> 'w \<Rightarrow> (exn + branch_result) \<times> 'w" where
  "branch_try client diff_text context w =
     (case client (branch_request diff_text context) w of
        (Inl e, w') \<Rightarrow> (Inl e, w')
      | (Inr response, w') \<Rightarrow>
          (case content_strip response of
             Inl e \<Rightarrow> (Inl e, w')
           | Inr content \<Rightarrow> (Inr (parse_branch_names content), w')))"

definition branch_error_line :: "exn \<Rightarrow> string" where
  "branch_error_line e = ''[red]Error suggesting branch name: '' @ str_exn e @ ''[/red]''"

definition suggest_branch_name ::
  "'w console \<Rightarrow> 'w client \<Rightarrow> string \<Rightarrow> string \<Rightarrow> 'w
     \<Rightarrow> (exn + branch_result) \<times> 'w" where
  "suggest_branch_name console client diff_text context w =
     (if str_strip diff_text = [] then (Inr branch_fallback, w)
      else (case branch_try client diff_text context w of
              (Inl e, w1) \<Rightarrow>
                (case console (branch_error_line e) w1 of
                   (Inl e', w2) \<Rightarrow> (Inl e', w2)
                 | (Inr u, w2) \<Rightarrow> (Inr branch_fallback, w2))
            | (Inr result, w1) \<Rightarrow> (Inr result, w1)))"

section \<open>Pull request summaries\<close>

definition pr_prompt :: "string \<Rightarrow> string \<Rightarrow> string" where
  "pr_prompt branch diff_text =
     ''\<newline>    Analyze this Git diff for a pull request and provide:\<newline>\<newline>    1. A clear summary of the changes (2-3 sentences)\<newline>    2. The impact level (High/Medium/Low)\<newline>    3. Testing considerations\<newline>\<newline>    Branch: ''
     @ branch
     @ ''\<newline>\<newline>    Git diff:\<newline>    ''
     @ diff_text
     @ ''\<newline>\<newline>    Format your response as:\<newline>    Summary: [summary text]\<newline>    Impact: [High/Medium/Low]\<newline>    Testing: [testing notes]\<newline>    ''"

definition pr_request :: "string \<Rightarrow> string \<Rightarrow> request" where
  "pr_request branch diff_text =
     \<lparr>model = ''gpt-4o-mini'',
      messages =
        [(''system'', ''You are a senior developer reviewing pull requests.''),
         (''user'', pr_prompt branch diff_text)],
      max_tokens = 200,
      temperature = 3 / 10\<rparr>"

definition pr_defaults :: pr_result where
  "pr_defaults =
     \<lparr>summary = ''Changes made to the codebase'', impact = ''Medium'',
      testing_notes = ''Standard testing procedures apply''\<rparr>"

text \<open>One round of the loop over the reply's lines.\<close>

definition pr_line :: "pr_result \<Rightarrow> string \<Rightarrow> pr_result" where
  "pr_line r line =
     (if str_startswith line ''Summary:''
      then r\<lparr>summary := str_strip (sub_label ''Summary:'' line)\<rparr>
      else if str_startswith line ''Impact:''
      then r\<lparr>impact := str_strip (sub_label ''Impact:'' line)\<rparr>
      else if str_startswith line ''Testing:''
      then r\<lparr>testing_notes := str_strip (sub_label ''Testing:'' line)\<rparr>
      else r)"

definition parse_pr_summary :: "string \<Rightarrow> pr_result" where
  "parse_pr_summary content = foldl pr_line pr_defaults (str_split CHR 0x0A content)"

definition pr_nothing :: pr_result where
  "pr_nothing =
     \<lparr>summary = ''No changes to summarize'', impact = ''Minimal'',
      testing_notes = ''No specific testing required''\<rparr>"

definition pr_fallback :: pr_result where
  "pr_fallback =
     \<lparr>summary = ''Pull request contains code changes'', impact = ''Medium'',
      testing_notes = ''Review changes before merging''\<rparr>"

definition pr_try ::
  "'w client \<Rightarrow> string \<Rightarrow> string \<Rightarrow> 'w \<Rightarrow> (exn + pr_result) \<times> 'w" where
  "pr_try client branch diff_text w =
     (case client (pr_request branch diff_text) w of
        (Inl e, w') \<Rightarrow> (Inl e, w')
      | (Inr response, w') \<Rightarrow>
          (case content_strip response of
             Inl e \<Rightarrow> (Inl e, w')
           | Inr content \<Rightarrow> (Inr (parse_pr_summary content), w')))"

definition pr_error_line :: "exn \<Rightarrow> string" where
  "pr_error_line e = ''[red]Error summarizing PR: '' @ str_exn e @ ''[/red]''"

definition summarize_pull_request ::
  "'w console \<Rightarrow> 'w client \<Rightarrow> string \<Rightarrow> string \<Rightarrow> 'w
     \<Rightarrow> (exn + pr_result) \<times> 'w" where
  "summarize_pull_request console client branch diff_text w =
     (if str_strip diff_text = [] then (Inr pr_nothing, w)
      else (case pr_try client branch diff_text w of
              (Inl e, w1) \<Rightarrow>
                (case console (pr_error_line e) w1 of
                   (Inl e', w2) \<Rightarrow> (Inl e', w2)
                 | (Inr u, w2) \<Rightarrow> (Inr pr_fallback, w2))
            | (Inr result, w1) \<Rightarrow> (Inr result, w1)))"

section \<open>The terminal and the version-control collaborator\<close>

text \<open>
  What the interactive flows do beyond calling the generation collaborator: they print,
  they read lines the user types, and they run \<open>git\<close>.

  A line printed with \<open>print\<close> is kept with its colour (\<open>Print\<close>). The texts are the
  program's, without the ANSI codes and the emoji that decorate them; the path and the
  text of the exception that the \<open>GitHandler\<close> constructor prints in its warning are left
  out. \<open>print\<close> does not read its text and does not raise. \<open>Input\<close> is the prompt of
  an \<open>input\<close> call.

  A line printed with \<open>console.print\<close> of the \<open>rich\<close> library is kept as it is given,
  with its markup (\<open>Console\<close>). The library reads the text as markup before anything
  is printed: \<open>rich text\<close> is \<open>None\<close> where the text is well formed and \<open>Some problem\<close>
  where the library raises \<open>MarkupError\<close> with that text, as it does on a closing tag
  that matches no open tag. A \<open>Panel\<close> is printed the same way; its constant title and
  style are left out. \<open>console.input\<close> prints its prompt through the same markup and
  then reads a line with \<open>input\<close>.

  \<open>subprocess.run\<close> is the boundary to \<open>git\<close>. With \<open>check=True\<close> it returns the
  standard output, or raises \<open>CalledProcessError\<close> (kept with its text) or
  \<open>FileNotFoundError\<close>; without \<open>check\<close> it returns the output whatever the exit status
  is, \<open>None\<close> standing for \<open>FileNotFoundError\<close>. \<open>Repo\<close> is the constructor of the
  \<open>git\<close> library: true where it returns, false where it raises. The state \<open>'g\<close> is the
  repository's and every run may change it.
\<close>

datatype colour = GREEN | BLUE | YELLOW | RED | BOLD | PLAIN

datatype event = Print colour string | Input string | Console string

type_synonym markup = "string \<Rightarrow> string option"

datatype outcome = CompletedProcess string | CalledProcessError string | FileNotFoundError

record 'g git_env =
  run_checked :: "string list \<Rightarrow> 'g \<Rightarrow> outcome \<times> 'g"
  run_unchecked :: "string list \<Rightarrow> 'g \<Rightarrow> string option \<times> 'g"
  Repo :: "'g \<Rightarrow> bool"

record ('g, 'w) session =
  git :: 'g
  service :: 'w
  stdin :: "string list"
  terminal :: "event list"

definition print_colored :: "string \<Rightarrow> colour \<Rightarrow> ('g, 'w) session \<Rightarrow> ('g, 'w) session" where
  "print_colored text color s = s\<lparr>terminal := terminal s @ [Print color text]\<rparr>"

text \<open>\<open>input(prompt)\<close>: the next line typed, or \<open>EOFError\<close> when there is none.\<close>

definition input :: "string \<Rightarrow> ('g, 'w) session \<Rightarrow> (exn + string) \<times> ('g, 'w) session" where
  "input prompt s =
     (case stdin s of
        [] \<Rightarrow> (Inl EOFError, s\<lparr>terminal := terminal s @ [Input prompt]\<rparr>)
      | line # rest \<Rightarrow>
          (Inr line, s\<lparr>stdin := rest, terminal := terminal s @ [Input prompt]\<rparr>))"

text \<open>
  The loop \<open>for i, alt in enumerate(result['suggestions'][:3], 1)\<close> of both flows, which
  prints \<open>f"  {i}. {alt}"\<close>.
\<close>

definition print_suggestions :: "string list \<Rightarrow> ('g, 'w) session \<Rightarrow> ('g, 'w) session" where
  "print_suggestions alts s =
     foldl (\<lambda>s' (i, alt). print_colored (''  '' @ str_nat i @ ''. '' @ alt) PLAIN s') s
       (List.enumerate 1 (take 3 alts))"

definition console_print ::
  "markup \<Rightarrow> string \<Rightarrow> ('g, 'w) session \<Rightarrow> (exn + unit) \<times> ('g, 'w) session" where
  "console_print rich text s =
     (case rich text of
        Some problem \<Rightarrow> (Inl (MarkupError problem), s)
      | None \<Rightarrow> (Inr (), s\<lparr>terminal := terminal s @ [Console text]\<rparr>))"

definition console_input ::
  "markup \<Rightarrow> string \<Rightarrow> ('g, 'w) session \<Rightarrow> (exn + string) \<times> ('g, 'w) session" where
  "console_input rich prompt s =
     (case rich prompt of
        Some problem \<Rightarrow> (Inl (MarkupError problem), s)
      | None \<Rightarrow> input prompt s)"

text \<open>Lines printed one after the other: the first that raises ends the printing.\<close>

fun console_lines ::
  "markup \<Rightarrow> string list \<Rightarrow> ('g, 'w) session \<Rightarrow> (exn + unit) \<times> ('g, 'w) session" where
  "console_lines rich [] s = (Inr (), s)"
| "console_lines rich (text # rest) s =
     (case console_print rich text s of
        (Inl e, s') \<Rightarrow> (Inl e, s')
      | (Inr u, s') \<Rightarrow> console_lines rich rest s')"

text \<open>The lines \<open>f"  {i}. {alt}"\<close> of the first three suggestions.\<close>

definition suggestion_lines :: "string list \<Rightarrow> string list" where
  "suggestion_lines alts =
     map (\<lambda>(i, alt). ''  '' @ str_nat i @ ''. '' @ alt) (List.enumerate 1 (take 3 alts))"

text \<open>
  The generation call of a flow, \<open>generate_commit_message(diff_text)\<close> with the default
  length and style. The client works on the session's service state, and the console of
  the operation is the \<open>rich\<close> console of the backend module.
\<close>

definition session_client :: "'w client \<Rightarrow> ('g, 'w) session client" where
  "session_client client request s =
     (case client request (service s) of
        (answer, w') \<Rightarrow> (answer, s\<lparr>service := w'\<rparr>))"

definition session_generate ::
  "markup \<Rightarrow> 'w client \<Rightarrow> string \<Rightarrow> ('g, 'w) session
     \<Rightarrow> (exn + commit_result) \<times> ('g, 'w) session" where
  "session_generate rich client diff_text s =
     generate_commit_message (console_print rich) (session_client client)
       diff_text 50 ''conventional'' s"

section \<open>The command-line tool\<close>

text \<open>\<open>run_git_command\<close>: the pair \<open>(stdout, error)\<close>, one of them \<open>None\<close>.\<close>

definition run_git_command ::
  "'g git_env \<Rightarrow> string list \<Rightarrow> ('g, 'w) session \<Rightarrow>
   (string option \<times> string option) \<times> ('g, 'w) session" where
  "run_git_command env command s =
     (case run_checked env command (git s) of
        (CompletedProcess out, g') \<Rightarrow> ((Some (str_strip out), None), s\<lparr>git := g'\<rparr>)
      | (CalledProcessError e, g') \<Rightarrow> ((None, Some e), s\<lparr>git := g'\<rparr>)
      | (FileNotFoundError, g') \<Rightarrow>
          ((None, Some ''Git command not found. Please ensure Git is installed.''),
           s\<lparr>git := g'\<rparr>))"

text \<open>
  The truth value of a string or \<open>None\<close>, as \<open>if not staged_diff:\<close> takes it. The tests
  \<open>if error:\<close> below are written out: an error is reported when it is a text that is
  not empty.
\<close>

definition truthy :: "string option \<Rightarrow> bool" where
  "truthy v = (case v of None \<Rightarrow> False | Some text \<Rightarrow> text \<noteq> [])"

definition check_git_repository :: "'g git_env \<Rightarrow> ('g, 'w) session \<Rightarrow> bool \<times> ('g, 'w) session" where
  "check_git_repository env s =
     (case run_git_command env [''git'', ''rev-parse'', ''--git-dir''] s of
        ((out, error), s') \<Rightarrow> (error = None, s'))"

definition get_staged_diff ::
  "'g git_env \<Rightarrow> ('g, 'w) session \<Rightarrow> string option \<times> ('g, 'w) session" where
  "get_staged_diff env s =
     (case run_git_command env [''git'', ''diff'', ''--cached''] s of
        ((out, error), s') \<Rightarrow>
          (case error of
             None \<Rightarrow> (out, s')
           | Some text \<Rightarrow>
               if text \<noteq> []
               then (Some [], print_colored (''Error getting staged diff: '' @ text) RED s')
               else (out, s')))"

definition stage_all_changes :: "'g git_env \<Rightarrow> ('g, 'w) session \<Rightarrow> bool \<times> ('g, 'w) session" where
  "stage_all_changes env s =
     (case run_git_command env [''git'', ''add'', ''.''] s of
        ((out, error), s') \<Rightarrow>
          (case error of
             None \<Rightarrow> (True, s')
           | Some text \<Rightarrow>
               if text \<noteq> []
               then (False, print_colored (''Error staging changes: '' @ text) RED s')
               else (True, s')))"

text \<open>\<open>message.replace('"', '\\"')\<close>: a backslash before every double quote.\<close>

definition escape_quotes :: "string \<Rightarrow> string" where
  "escape_quotes message =
     concat (map (\<lambda>c. if c = CHR 0x22 then [CHR 0x5C, CHR 0x22] else [c]) message)"

definition commit_changes ::
  "'g git_env \<Rightarrow> string \<Rightarrow> ('g, 'w) session \<Rightarrow> bool \<times> ('g, 'w) session" where
  "commit_changes env message s =
     (case run_git_command env [''git'', ''commit'', ''-m'', escape_quotes message] s of
        ((out, error), s') \<Rightarrow>
          (case error of
             None \<Rightarrow> (True, s')
           | Some text \<Rightarrow>
               if text \<noteq> []
               then (False, print_colored (''Error committing changes: '' @ text) RED s')
               else (True, s')))"

definition print_header :: "string \<Rightarrow> ('g, 'w) session \<Rightarrow> ('g, 'w) session" where
  "print_header text s =
     print_colored (replicate 60 CHR ''='') GREEN
       (print_colored text BOLD
          (print_colored (CHR 0x0A # replicate 60 CHR ''='') GREEN s))"

text \<open>
  The first half of \<open>interactive_commit_flow\<close>, up to the \<open>try\<close> statement. \<open>Inl\<close> is an
  exception that leaves the function, \<open>Inr None\<close> a \<open>return\<close>, and \<open>Inr (Some d)\<close> the
  staged diff the flow goes on with.
\<close>

definition ensure_staged ::
  "'g git_env \<Rightarrow> ('g, 'w) session \<Rightarrow> (exn + string option) \<times> ('g, 'w) session" where
  "ensure_staged env s0 =
     (case get_staged_diff env s0 of
        (staged_diff, s1) \<Rightarrow>
          if truthy staged_diff then (Inr staged_diff, s1)
          else
            (case input ''Would you like to stage all changes? (y/n): ''
                    (print_colored ''No staged changes found.'' YELLOW s1) of
               (Inl e, s2) \<Rightarrow> (Inl e, s2)
             | (Inr answer, s2) \<Rightarrow>
                 if str_strip (str_lower answer) = ''y'' then
                   (case stage_all_changes env s2 of
                      (True, s3) \<Rightarrow>
                        (case get_staged_diff env
                                (print_colored ''Changes staged successfully!'' GREEN s3) of
                           (staged_diff', s4) \<Rightarrow>
                             if truthy staged_diff' then (Inr staged_diff', s4)
                             else (Inr None, print_colored ''No changes to commit.'' YELLOW s4))
                    | (False, s3) \<Rightarrow>
                        (Inr None, print_colored ''Failed to stage changes.'' RED s3))
                 else
                   (Inr None,
                    print_colored
                      ''Please stage your changes first using 'git add' and try again.''
                      PLAIN s2)))"

text \<open>
  The body of the \<open>try\<close> statement of \<open>interactive_commit_flow\<close>, in three parts: the
  suggestion is generated, it is shown, and the user decides. \<open>Inl\<close> is an exception
  raised inside the \<open>try\<close> statement.
\<close>

definition present :: "commit_result \<Rightarrow> ('g, 'w) session \<Rightarrow> ('g, 'w) session" where
  "present result s1 =
     (let s2 = print_colored (''  '' @ commit_message result) GREEN
                 (print_colored ''\<newline>Suggested Commit Message:'' BOLD s1);
          s3 = (if suggestions result \<noteq> []
                then print_suggestions (suggestions result)
                       (print_colored ''\<newline>Alternative suggestions:'' BLUE s2)
                else s2)
      in print_colored (CHR 0x0A # replicate 60 CHR ''='') YELLOW s3)"

definition commit_decision ::
  "'g git_env \<Rightarrow> commit_result \<Rightarrow> ('g, 'w) session \<Rightarrow> (exn + unit) \<times> ('g, 'w) session" where
  "commit_decision env result s4 =
     (case input ''Use this message? (y = yes, n = no, e = edit, q = quit): '' s4 of
        (Inl e, s5) \<Rightarrow> (Inl e, s5)
      | (Inr answer, s5) \<Rightarrow>
          (let choice = str_strip (str_lower answer)
           in if choice = ''y'' then
                (case commit_changes env (commit_message result) s5 of
                   (True, s6) \<Rightarrow>
                     (Inr (),
                      print_colored (''Commit message: '' @ commit_message result) PLAIN
                        (print_colored ''Changes committed successfully!'' GREEN s6))
                 | (False, s6) \<Rightarrow>
                     (Inr (), print_colored ''Failed to commit changes.'' RED s6))
              else if choice = ''e'' then
                (case input ''Enter your commit message: '' s5 of
                   (Inl e, s6) \<Rightarrow> (Inl e, s6)
                 | (Inr typed, s6) \<Rightarrow>
                     (let custom_message = str_strip typed
                      in if custom_message \<noteq> [] then
                           (case commit_changes env custom_message s6 of
                              (True, s7) \<Rightarrow>
                                (Inr (),
                                 print_colored (''Commit message: '' @ custom_message) PLAIN
                                   (print_colored ''Changes committed successfully!'' GREEN s7))
                            | (False, s7) \<Rightarrow>
                                (Inr (), print_colored ''Failed to commit changes.'' RED s7))
                         else
                           (Inr (), print_colored ''Commit message cannot be empty.'' RED s6)))
              else if choice = ''q'' then (Inr (), print_colored ''Goodbye!'' BLUE s5)
              else (Inr (), print_colored ''Commit cancelled.'' YELLOW s5)))"

definition present_and_commit ::
  "markup \<Rightarrow> 'g git_env \<Rightarrow> 'w client \<Rightarrow> string \<Rightarrow> ('g, 'w) session
     \<Rightarrow> (exn + unit) \<times> ('g, 'w) session" where
  "present_and_commit rich env client staged_diff s0 =
     (case session_generate rich client staged_diff s0 of
        (Inl e, s1) \<Rightarrow> (Inl e, s1)
      | (Inr result, s1) \<Rightarrow> commit_decision env result (present result s1))"

text \<open>
  \<open>interactive_commit_flow\<close>: \<open>Some e\<close> is an exception that leaves the function (only
  the first \<open>input\<close> stands outside the \<open>try\<close> statement), \<open>None\<close> a normal return.
  The flow prints with \<open>print\<close>; \<open>rich\<close> is for the console of the operation it calls.
\<close>

definition interactive_commit_flow ::
  "markup \<Rightarrow> 'g git_env \<Rightarrow> 'w client \<Rightarrow> ('g, 'w) session
     \<Rightarrow> exn option \<times> ('g, 'w) session" where
  "interactive_commit_flow rich env client s0 =
     (case check_git_repository env (print_header ''GitWhisperer AI Commit Assistant'' s0) of
        (False, s1) \<Rightarrow>
          (None,
           print_colored ''Please run this command from within a Git repository.'' PLAIN
             (print_colored ''Error: Not a Git repository!'' RED s1))
      | (True, s1) \<Rightarrow>
          (case ensure_staged env s1 of
             (Inl e, s2) \<Rightarrow> (Some e, s2)
           | (Inr None, s2) \<Rightarrow> (None, s2)
           | (Inr (Some staged_diff), s2) \<Rightarrow>
               (case present_and_commit rich env client staged_diff
                       (print_colored ''Analyzing changes...'' BLUE s2) of
                  (Inr u, s3) \<Rightarrow> (None, s3)
                | (Inl e, s3) \<Rightarrow>
                    (None,
                     print_colored
                       ''Please check your OpenAI API key and internet connection.'' PLAIN
                       (print_colored (''Error generating commit message: '' @ str_exn e) RED
                          s3)))))"

section \<open>The command-line mode of the backend\<close>

text \<open>
  The methods of \<open>GitHandler\<close> that \<open>run_cli\<close> calls. They run \<open>git\<close> themselves, and the
  commit message goes to \<open>git commit -m\<close> as it is.
\<close>

definition handler_is_git_repository :: "'g git_env \<Rightarrow> ('g, 'w) session \<Rightarrow> bool" where
  "handler_is_git_repository env s = Repo env (git s)"

definition handler_has_staged_changes ::
  "'g git_env \<Rightarrow> ('g, 'w) session \<Rightarrow> bool \<times> ('g, 'w) session" where
  "handler_has_staged_changes env s =
     (case run_unchecked env [''git'', ''diff'', ''--cached'', ''--name-only''] (git s) of
        (Some out, g') \<Rightarrow> (str_strip out \<noteq> [], s\<lparr>git := g'\<rparr>)
      | (None, g') \<Rightarrow>
          (False,
           print_colored ''Git command not found. Please ensure Git is installed.'' PLAIN
             (s\<lparr>git := g'\<rparr>)))"

definition handler_run ::
  "'g git_env \<Rightarrow> string list \<Rightarrow> string \<Rightarrow> ('g, 'w) session \<Rightarrow>
   string option \<times> ('g, 'w) session" where
  "handler_run env command failure s =
     (case run_checked env command (git s) of
        (CompletedProcess out, g') \<Rightarrow> (Some out, s\<lparr>git := g'\<rparr>)
      | (CalledProcessError e, g') \<Rightarrow>
          (None, print_colored (failure @ e) PLAIN (s\<lparr>git := g'\<rparr>))
      | (FileNotFoundError, g') \<Rightarrow>
          (None,
           print_colored ''Git command not found. Please ensure Git is installed.'' PLAIN
             (s\<lparr>git := g'\<rparr>)))"

definition handler_stage_all_changes ::
  "'g git_env \<Rightarrow> ('g, 'w) session \<Rightarrow> bool \<times> ('g, 'w) session" where
  "handler_stage_all_changes env s =
     (case handler_run env [''git'', ''add'', ''.''] ''Error staging changes: '' s of
        (Some out, s') \<Rightarrow> (True, s')
      | (None, s') \<Rightarrow> (False, s'))"

definition handler_get_staged_diff ::
  "'g git_env \<Rightarrow> ('g, 'w) session \<Rightarrow> string \<times> ('g, 'w) session" where
  "handler_get_staged_diff env s =
     (case handler_run env [''git'', ''diff'', ''--cached''] ''Error getting staged diff: '' s of
        (Some out, s') \<Rightarrow> (out, s')
      | (None, s') \<Rightarrow> ([], s'))"

definition handler_commit_changes ::
  "'g git_env \<Rightarrow> string \<Rightarrow> ('g, 'w) session \<Rightarrow> bool \<times> ('g, 'w) session" where
  "handler_commit_changes env message s =
     (case handler_run env [''git'', ''commit'', ''-m'', message]
             ''Error committing changes: '' s of
        (Some out, s') \<Rightarrow> (True, s')
      | (None, s') \<Rightarrow> (False, s'))"

text \<open>
  The end of \<open>run_cli\<close>: the user's answer to \<open>Use this message? (y/n/edit)\<close>. No
  \<open>try\<close> statement stands in \<open>run_cli\<close>: \<open>Inl e\<close> is an exception that leaves the
  function, here and below.
\<close>

definition run_cli_decision ::
  "markup \<Rightarrow> 'g git_env \<Rightarrow> commit_result \<Rightarrow> ('g, 'w) session
     \<Rightarrow> (exn + unit) \<times> ('g, 'w) session" where
  "run_cli_decision rich env result s0 =
     (case console_input rich ''\<newline>Use this message? (y/n/edit): '' s0 of
        (Inl e, s1) \<Rightarrow> (Inl e, s1)
      | (Inr use_message, s1) \<Rightarrow>
          if str_lower use_message = ''y'' then
            (case handler_commit_changes env (commit_message result) s1 of
               (True, s2) \<Rightarrow>
                 console_print rich ''[green]Changes committed successfully![/green]'' s2
             | (False, s2) \<Rightarrow>
                 console_print rich ''[red]Failed to commit changes.[/red]'' s2)
          else if str_lower use_message = ''edit'' then
            (case console_input rich ''Enter your commit message: '' s1 of
               (Inl e, s2) \<Rightarrow> (Inl e, s2)
             | (Inr custom_message, s2) \<Rightarrow>
                 (case handler_commit_changes env custom_message s2 of
                    (True, s3) \<Rightarrow>
                      console_print rich ''[green]Changes committed successfully![/green]'' s3
                  | (False, s3) \<Rightarrow>
                      console_print rich ''[red]Failed to commit changes.[/red]'' s3))
          else console_print rich ''[yellow]Commit cancelled.[/yellow]'' s1)"

text \<open>The display of the result: the panel with the message, then the suggestions.\<close>

definition run_cli_display ::
  "markup \<Rightarrow> commit_result \<Rightarrow> ('g, 'w) session \<Rightarrow> (exn + unit) \<times> ('g, 'w) session" where
  "run_cli_display rich result s0 =
     (case console_print rich
             (''[bold green]Suggested Commit Message:[/bold green]\<newline>''
              @ commit_message result) s0 of
        (Inl e, s1) \<Rightarrow> (Inl e, s1)
      | (Inr u, s1) \<Rightarrow>
          if suggestions result \<noteq> []
          then console_lines rich
                 (''[cyan]Alternative suggestions:[/cyan]''
                  # suggestion_lines (suggestions result)) s1
          else (Inr (), s1))"

text \<open>\<open>run_cli\<close> from the staged diff on: generation, display, decision.\<close>

definition run_cli_generate ::
  "markup \<Rightarrow> 'g git_env \<Rightarrow> 'w client \<Rightarrow> ('g, 'w) session
     \<Rightarrow> (exn + unit) \<times> ('g, 'w) session" where
  "run_cli_generate rich env client s0 =
     (case handler_get_staged_diff env s0 of
        (diff_text, s1) \<Rightarrow>
          if diff_text = []
          then console_print rich ''[yellow]No changes to commit.[/yellow]'' s1
          else
            (case console_print rich ''[cyan]Generating commit message...[/cyan]'' s1 of
               (Inl e, s2) \<Rightarrow> (Inl e, s2)
             | (Inr u, s2) \<Rightarrow>
                 (case session_generate rich client diff_text s2 of
                    (Inl e, s3) \<Rightarrow> (Inl e, s3)
                  | (Inr result, s3) \<Rightarrow>
                      (case run_cli_display rich result s3 of
                         (Inl e, s4) \<Rightarrow> (Inl e, s4)
                       | (Inr u, s4) \<Rightarrow> run_cli_decision rich env result s4))))"

text \<open>\<open>run_cli\<close>, from the header panel on.\<close>

definition run_cli ::
  "markup \<Rightarrow> 'g git_env \<Rightarrow> 'w client \<Rightarrow> ('g, 'w) session
     \<Rightarrow> (exn + unit) \<times> ('g, 'w) session" where
  "run_cli rich env client s0 =
     (case console_print rich
             ''[bold blue]GitWhisperer AI[/bold blue]\<newline>AI-powered Git commit assistant'' s0 of
        (Inl e, s1) \<Rightarrow> (Inl e, s1)
      | (Inr u, s1) \<Rightarrow>
          (let s2 = (if Repo env (git s1) then s1
                     else print_colored ''Warning: Could not initialize Git repository''
                            PLAIN s1)
           in if \<not> handler_is_git_repository env s2
              then console_print rich ''[red]Error: Not a Git repository![/red]'' s2
              else
                (case handler_has_staged_changes env s2 of
                   (True, s3) \<Rightarrow> run_cli_generate rich env client s3
                 | (False, s3) \<Rightarrow>
                     (case console_print rich ''[yellow]No staged changes found.[/yellow]'' s3 of
                        (Inl e, s4) \<Rightarrow> (Inl e, s4)
                      | (Inr u, s4) \<Rightarrow>
                          (case console_input rich ''Stage all changes? (y/n): '' s4 of
                             (Inl e, s5) \<Rightarrow> (Inl e, s5)
                           | (Inr stage, s5) \<Rightarrow>
                               if str_lower stage = ''y'' then
                                 (case handler_stage_all_changes env s5 of
                                    (True, s6) \<Rightarrow>
                                      (case console_print rich
                                              ''[green]Changes staged successfully![/green]''
                                              s6 of
                                         (Inl e, s7) \<Rightarrow> (Inl e, s7)
                                       | (Inr u, s7) \<Rightarrow> run_cli_generate rich env client s7)
                                  | (False, s6) \<Rightarrow>
                                      console_print rich
                                        ''[red]Failed to stage changes.[/red]'' s6)
                               else run_cli_generate rich env client s5)))))"

text \<open>
  A repository for concrete runs. Its state is the list of the commands run so far. The
  staged diff and the staged file names are given; \<open>git commit\<close> fails on an empty
  message, as \<open>git\<close> does, and every other command succeeds with no output.
\<close>

definition recording_git :: "string \<Rightarrow> string \<Rightarrow> (string list list) git_env" where
  "recording_git staged names =
     \<lparr>run_checked =
        (\<lambda>command log.
           (if command = [''git'', ''diff'', ''--cached''] then CompletedProcess staged
            else if command = [''git'', ''commit'', ''-m'', []]
            then CalledProcessError ''Aborting commit due to empty commit message.''
            else CompletedProcess [],
            log @ [command])),
      run_unchecked = (\<lambda>command log. (Some names, log @ [command])),
      Repo = (\<lambda>log. True)\<rparr>"

section \<open>Stand-ins for the collaborators\<close>

text \<open>
  Clients for concrete runs: one answers every request with the same text, one raises on
  every request, one answers and counts the requests it gets, and one answers the first
  request it gets and raises on every later one.
\<close>

definition reply_client :: "string \<Rightarrow> 'w client" where
  "reply_client text = (\<lambda>request w. (Inr [Some text], w))"

definition failing_client :: "exn \<Rightarrow> 'w client" where
  "failing_client e = (\<lambda>request w. (Inl e, w))"

definition counting_client :: "string \<Rightarrow> nat client" where
  "counting_client text = (\<lambda>request n. (Inr [Some text], Suc n))"

definition flaky_client :: "string \<Rightarrow> exn \<Rightarrow> nat client" where
  "flaky_client text e =
     (\<lambda>request n. (if n = 0 then Inr [Some text] else Inl e, Suc n))"

text \<open>
  Consoles for the operations on their own: \<open>silent_console\<close> accepts every text, and
  \<open>markup_console rich\<close> raises where the reading \<open>rich\<close> of the markup does. Neither keeps
  what is printed. Readings of markup for concrete runs: \<open>well_formed\<close> accepts every
  text, and \<open>refusing refused problem\<close> raises on the one text \<open>refused\<close>, with the
  problem the library reports on it.
\<close>

definition silent_console :: "'w console" where
  "silent_console = (\<lambda>text w. (Inr (), w))"

definition well_formed :: markup where
  "well_formed = (\<lambda>text. None)"

definition refusing :: "string \<Rightarrow> string \<Rightarrow> markup" where
  "refusing refused problem = (\<lambda>text. if text = refused then Some problem else None)"

definition markup_console :: "markup \<Rightarrow> 'w console" where
  "markup_console rich =
     (\<lambda>text w. (case rich text of
                   Some problem \<Rightarrow> Inl (MarkupError problem)
                 | None \<Rightarrow> Inr (), w))"

section \<open>Notions of the specification\<close>

text \<open>The set \<open>[a-z0-9/-]\<close>: small letters, digits, the slash and the hyphen.\<close>

definition branch_charset :: "char \<Rightarrow> bool" where
  "branch_charset c =
     (let n = (of_char c :: nat)
      in (97 \<le> n \<and> n \<le> 122) \<or> (48 \<le> n \<and> n \<le> 57) \<or> c = CHR ''/'' \<or> c = CHR ''-'')"

text \<open>
  The value of a labelled field among the lines of a reply: everything after the label,
  trimmed, on the first line that starts with the label (\<open>first_match\<close>) or on the last
  such line (\<open>last_match\<close>); the given value when no line starts with it.
\<close>

definition first_match :: "string \<Rightarrow> string \<Rightarrow> string list \<Rightarrow> string" where
  "first_match label otherwise lines =
     (let ms = filter (\<lambda>line. str_startswith line label) lines
      in if ms = [] then otherwise else str_strip (drop (length label) (hd ms)))"

definition last_match :: "string \<Rightarrow> string \<Rightarrow> string list \<Rightarrow> string" where
  "last_match label otherwise lines =
     (let ms = filter (\<lambda>line. str_startswith line label) lines
      in if ms = [] then otherwise else str_strip (drop (length label) (last ms)))"

text \<open>The canonical text of a summary: one labelled line for each field.\<close>

definition pr_text :: "string \<Rightarrow> string \<Rightarrow> string \<Rightarrow> string" where
  "pr_text s i t = ''Summary: '' @ s @ ''\<newline>Impact: '' @ i @ ''\<newline>Testing: '' @ t"

text \<open>A value that a parsed field can have: trimmed, and on one line.\<close>

definition field_value :: "string \<Rightarrow> bool" where
  "field_value v = (str_strip v = v \<and> CHR 0x0A \<notin> set v)"

section \<open>Rules for running the model on concrete input\<close>

lemmas string_eval = isspace_def isdigit_def isupper_def lower_char_def str_lower_def
  str_lstrip_def str_rstrip_def str_strip_def str_startswith_def isquote_def sub_quotes_def
  sub_ordinal_def sub_label_def branch_char_def sub_branch_chars_def char_of_eq_iff Let_def
  slice_to_def

lemmas client_eval = content_strip_def reply_client_def failing_client_def counting_client_def
  flaky_client_def silent_console_def well_formed_def refusing_def markup_console_def
  str_exn_def

lemmas commit_eval = generate_commit_message_def commit_try_def commit_error_line_def
  generate_alternative_messages_def parse_alternatives_def alternative_line_def
  keep_alternative_def parse_commit_message_def commit_nothing_def commit_fallback_def
  alternatives_fallback_def

lemmas branch_eval = suggest_branch_name_def branch_try_def branch_error_line_def parse_branch_names_def
  branch_scan_def branch_line_def clean_branch_name_def branch_fallback_def

lemmas pr_eval = summarize_pull_request_def pr_try_def pr_error_line_def parse_pr_summary_def pr_line_def
  pr_defaults_def pr_nothing_def pr_fallback_def

lemmas flow_eval = print_colored_def input_def print_suggestions_def session_generate_def
  console_print_def console_input_def console_lines.simps suggestion_lines_def
  session_client_def run_cli_display_def
  run_git_command_def truthy_def check_git_repository_def get_staged_diff_def
  stage_all_changes_def escape_quotes_def commit_changes_def print_header_def
  ensure_staged_def present_def commit_decision_def present_and_commit_def
  interactive_commit_flow_def handler_is_git_repository_def handler_has_staged_changes_def
  handler_run_def handler_stage_all_changes_def handler_get_staged_diff_def
  handler_commit_changes_def run_cli_decision_def run_cli_generate_def run_cli_def
  recording_git_def str_nat.simps

section \<open>What a reply becomes\<close>

text \<open>
  Where the diff is not blank and the generation call answers with a text, each operation
  returns what its parser makes of the stripped text.
\<close>

lemma generate_commit_message_reply:
  assumes "str_strip diff_text \<noteq> []"
    and "fst (client (commit_request diff_text style) w) = Inr (Some raw # others)"
  shows "\<exists>r. fst (generate_commit_message console client diff_text L style w) = Inr r
           \<and> commit_message r = parse_commit_message (str_strip raw) L"
  using assms
  by (cases "client (commit_request diff_text style) w")
     (simp add: generate_commit_message_def commit_try_def content_strip_def split: prod.splits)

lemma generate_alternative_messages_reply:
  assumes "fst (client (alternatives_request diff_text style count) w) = Inr (Some raw # others)"
  shows "fst (generate_alternative_messages client diff_text style count w) =
         parse_alternatives (str_strip raw) count"
  using assms
  by (cases "client (alternatives_request diff_text style count) w")
     (simp add: generate_alternative_messages_def content_strip_def)

lemma summarize_pull_request_reply:
  assumes "str_strip diff_text \<noteq> []"
    and "fst (client (pr_request branch diff_text) w) = Inr (Some raw # others)"
  shows "fst (summarize_pull_request console client branch diff_text w) =
         Inr (parse_pr_summary (str_strip raw))"
  using assms
  by (cases "client (pr_request branch diff_text) w")
     (simp add: summarize_pull_request_def pr_try_def content_strip_def)

section \<open>The commit message and its length\<close>

lemma parse_commit_message_short:
  "int (length (sub_quotes reply)) \<le> L \<Longrightarrow> parse_commit_message reply L = sub_quotes reply"
  by (simp add: parse_commit_message_def)

lemma parse_commit_message_long:
  "3 \<le> L \<Longrightarrow> L < int (length (sub_quotes reply)) \<Longrightarrow>
   parse_commit_message reply L = take (nat (L - 3)) (sub_quotes reply) @ ''...''"
  by (simp add: parse_commit_message_def slice_to_def)

lemma parse_commit_message_length:
  "3 \<le> L \<Longrightarrow> int (length (parse_commit_message reply L)) \<le> L"
  by (auto simp add: parse_commit_message_def slice_to_def Let_def)

text \<open>
  Below 3 the slice \<open>[:max_length-3]\<close> counts from the end: the message keeps all but the
  last \<open>3 - max_length\<close> characters of the candidate and gains the three dots.
\<close>

lemma parse_commit_message_below_three:
  "L < 3 \<Longrightarrow> L < int (length (sub_quotes reply)) \<Longrightarrow>
   parse_commit_message reply L =
     take (length (sub_quotes reply) - nat (3 - L)) (sub_quotes reply) @ ''...''"
  by (simp add: parse_commit_message_def slice_to_def Let_def)

text \<open>
  C1, as the code has it. The bound holds where the message is parsed from a reply and
  \<open>max_length\<close> is at least 3: for a diff that is not blank, a generation call that
  answers with a text \<open>raw\<close>, and \<open>3 \<le> L\<close>, the returned commit message has at most
  \<open>L\<close> characters; it is the first \<open>L - 3\<close> characters of the quote-stripped candidate
  followed by \<open>...\<close> when the candidate is longer than \<open>L\<close>, and the candidate itself
  otherwise.
\<close>

theorem commit_message_within_max_length:
  assumes "str_strip diff_text \<noteq> []"
    and "fst (client (commit_request diff_text style) w) = Inr (Some raw # others)"
    and "3 \<le> L"
  shows "\<exists>r. fst (generate_commit_message console client diff_text L style w) = Inr r
    \<and> int (length (commit_message r)) \<le> L
    \<and> (L < int (length (sub_quotes (str_strip raw))) \<longrightarrow>
         commit_message r = take (nat (L - 3)) (sub_quotes (str_strip raw)) @ ''...'')
    \<and> (int (length (sub_quotes (str_strip raw))) \<le> L \<longrightarrow>
         commit_message r = sub_quotes (str_strip raw))"
proof -
  obtain r where r: "fst (generate_commit_message console client diff_text L style w) = Inr r"
    and m: "commit_message r = parse_commit_message (str_strip raw) L"
    using assms generate_commit_message_reply [of diff_text client style w raw others console L]
    by blast
  show ?thesis
    using r m assms(3)
    by (simp add: parse_commit_message_length parse_commit_message_long
        parse_commit_message_short)
qed

theorem commit_message_within_max_length_witness:
  "\<exists>r. fst (generate_commit_message silent_console
           (reply_client ''Refactor the parser module'') ''+line'' 10 ''brief'' ()) = Inr r
     \<and> int (length (commit_message r)) \<le> 10
     \<and> commit_message r = ''Refacto...''"
  using commit_message_within_max_length
    [of "''+line''" "reply_client ''Refactor the parser module''" "''brief''" "()"
        "''Refactor the parser module''" "[]" 10 silent_console]
  by (simp add: string_eval reply_client_def)

text \<open>
  Three runs where the returned message is longer than \<open>max_length\<close>: a blank diff with
  \<open>max_length = 10\<close> returns the 19 characters of \<open>No changes detected\<close>; a generation
  call that raises returns the 20 characters of \<open>Update project files\<close>; and with
  \<open>max_length = 2\<close> the reply \<open>abcdef\<close> becomes \<open>abcde...\<close>.
\<close>

theorem commit_message_exceeds_max_length:
  "(\<exists>r. fst (generate_commit_message silent_console
            (reply_client ''Fix bug'') [] 10 ''conventional'' ()) = Inr r
      \<and> commit_message r = ''No changes detected''
      \<and> \<not> int (length (commit_message r)) \<le> 10)
   \<and> (\<exists>r. fst (generate_commit_message silent_console
            (failing_client (APIError ''timeout'')) ''+line'' 10 ''conventional'' ()) = Inr r
      \<and> commit_message r = ''Update project files''
      \<and> \<not> int (length (commit_message r)) \<le> 10)
   \<and> (\<exists>r. fst (generate_commit_message silent_console
            (reply_client ''abcdef'') ''+line'' 2 ''conventional'' ()) = Inr r
      \<and> commit_message r = ''abcde...''
      \<and> \<not> int (length (commit_message r)) \<le> 2)"
  by (simp add: commit_eval client_eval string_eval)

section \<open>The fields of a pull request summary\<close>

lemma str_strip_dropWhile: "str_strip (dropWhile isspace s) = str_strip s"
  by (simp add: str_strip_def str_lstrip_def)

lemma str_strip_sub_label:
  "str_startswith line label \<Longrightarrow>
   str_strip (sub_label label line) = str_strip (drop (length label) line)"
  by (simp add: sub_label_def str_strip_dropWhile)

lemma labels_differ:
  "str_startswith line ''Summary:'' \<Longrightarrow> \<not> str_startswith line ''Impact:''"
  "str_startswith line ''Summary:'' \<Longrightarrow> \<not> str_startswith line ''Testing:''"
  "str_startswith line ''Impact:'' \<Longrightarrow> \<not> str_startswith line ''Testing:''"
  by (cases line; simp add: str_startswith_def)+

lemma pr_line_summary:
  "summary (pr_line r line) =
     (if str_startswith line ''Summary:'' then str_strip (drop (length ''Summary:'') line)
      else summary r)"
  by (simp add: pr_line_def str_strip_sub_label)

lemma pr_line_impact:
  "impact (pr_line r line) =
     (if str_startswith line ''Impact:'' then str_strip (drop (length ''Impact:'') line)
      else impact r)"
  using labels_differ(1) [of line]
  by (auto simp add: pr_line_def str_strip_sub_label)

lemma pr_line_testing:
  "testing_notes (pr_line r line) =
     (if str_startswith line ''Testing:'' then str_strip (drop (length ''Testing:'') line)
      else testing_notes r)"
  using labels_differ(2,3) [of line]
  by (auto simp add: pr_line_def str_strip_sub_label)

lemma last_match_snoc:
  "last_match label otherwise (lines @ [line]) =
     (if str_startswith line label then str_strip (drop (length label) line)
      else last_match label otherwise lines)"
  by (simp add: last_match_def Let_def)

text \<open>The loop keeps, for each label, what the last line with that label says.\<close>

lemma foldl_pr_line:
  "summary (foldl pr_line r lines) = last_match ''Summary:'' (summary r) lines
   \<and> impact (foldl pr_line r lines) = last_match ''Impact:'' (impact r) lines
   \<and> testing_notes (foldl pr_line r lines) = last_match ''Testing:'' (testing_notes r) lines"
proof (induction lines rule: rev_induct)
  case Nil
  then show ?case by (simp add: last_match_def)
next
  case (snoc line lines)
  then show ?case
    by (simp add: pr_line_summary pr_line_impact pr_line_testing last_match_snoc)
qed

text \<open>
  C2, as the code has it. In \<open>summarize_pull_request\<close>, for a diff that is not blank and
  a reply \<open>raw\<close>, each field comes from the lines of the stripped reply that start with
  its label, written exactly \<open>Summary:\<close>, \<open>Impact:\<close> or \<open>Testing:\<close>: the value is everything
  after the label, trimmed. When several lines start with the same label the last of them
  gives the field, since the loop runs over all lines and every match overwrites the
  field. A field whose label starts no line keeps its default.
\<close>

theorem pr_fields_from_last_labelled_line:
  assumes "str_strip diff_text \<noteq> []"
    and "fst (client (pr_request branch diff_text) w) = Inr (Some raw # others)"
  shows "\<exists>r. fst (summarize_pull_request console client branch diff_text w) = Inr r
       \<and> summary r =
           last_match ''Summary:'' ''Changes made to the codebase''
             (str_split CHR 0x0A (str_strip raw))
       \<and> impact r =
           last_match ''Impact:'' ''Medium'' (str_split CHR 0x0A (str_strip raw))
       \<and> testing_notes r =
           last_match ''Testing:'' ''Standard testing procedures apply''
             (str_split CHR 0x0A (str_strip raw))"
  using assms foldl_pr_line [of pr_defaults "str_split CHR 0x0A (str_strip raw)"]
  by (simp add: summarize_pull_request_reply parse_pr_summary_def pr_defaults_def)

theorem pr_fields_from_last_labelled_line_witness:
  "fst (summarize_pull_request silent_console
          (reply_client ''Summary: first\<newline>Testing:   run the suite \<newline>Summary: second'')
          ''main'' ''+line'' ()) =
     Inr \<lparr>summary = ''second'', impact = ''Medium'', testing_notes = ''run the suite''\<rparr>"
  using pr_fields_from_last_labelled_line
    [of "''+line''"
        "reply_client ''Summary: first\<newline>Testing:   run the suite \<newline>Summary: second''"
        "''main''" "()"
        "''Summary: first\<newline>Testing:   run the suite \<newline>Summary: second''" "[]"
        silent_console]
  by (simp add: pr_eval client_eval string_eval last_match_def)

text \<open>
  A reply with two \<open>Summary:\<close> lines: the summary returned is the second line's, where
  the first matching line would give \<open>first\<close>.
\<close>

theorem pr_summary_not_from_first_line:
  "(\<exists>r. fst (summarize_pull_request silent_console
            (reply_client ''Summary: first\<newline>Summary: second'') ''main'' ''+line'' ()) = Inr r
      \<and> summary r = ''second'')
   \<and> first_match ''Summary:'' ''Changes made to the codebase''
        (str_split CHR 0x0A (str_strip ''Summary: first\<newline>Summary: second'')) = ''first''"
  by (simp add: pr_eval client_eval string_eval first_match_def)

section \<open>The labelled lines of a branch reply\<close>

text \<open>
  A line whose label is written in small letters loses the label: the value is what
  follows the first colon, trimmed.
\<close>

lemma branch_line_primary_small:
  assumes "str_startswith line ''primary:''"
  shows "branch_line (primary, alts) line = (str_strip (drop (length ''primary:'') line), alts)"
proof -
  define n where "n = length ''primary:''"
  have t: "take n line = ''primary:''"
    using assms by (simp add: str_startswith_def n_def)
  have "take n (str_lower line) = str_lower (take n line)"
    by (simp add: str_lower_def take_map)
  also have "\<dots> = str_lower ''primary:''"
    by (simp only: t)
  also have "\<dots> = ''primary:''"
    by (simp add: string_eval)
  finally have "str_startswith (str_lower line) ''primary:''"
    by (simp add: str_startswith_def n_def)
  then show ?thesis
    using assms by (simp add: branch_line_def str_strip_sub_label)
qed

text \<open>
  A line whose label is written with a capital passes the test, which lowers the line,
  but the substitution looks for the label in small letters and removes nothing: the
  whole line, trimmed, becomes the primary value.
\<close>

lemma branch_line_primary_capital:
  assumes "str_startswith (str_lower line) ''primary:''"
    and "\<not> str_startswith line ''primary:''"
  shows "branch_line (primary, alts) line = (str_strip line, alts)"
  using assms by (simp add: branch_line_def sub_label_def)

text \<open>
  C3 does not hold of the code. The reply below is in the format the prompt asks for,
  \<open>Primary: ...\<close> and \<open>Alternatives: ...\<close>. The labels stay in the values and are cleaned
  with them: the branch name is \<open>primary--fix/login-bug\<close>, not \<open>fix/login-bug\<close>, and
  the first alternative is \<open>alternatives--fix/auth\<close>.
\<close>

theorem capitalised_labels_stay_in_branch_names:
  "fst (suggest_branch_name silent_console
          (reply_client ''Primary: fix/login-bug\<newline>Alternatives: fix/auth, fix/session'')
          ''+line'' [] ()) =
     Inr \<lparr>branch_name = ''primary--fix/login-bug'',
      alternatives = [''alternatives--fix/auth'', ''fix/session'']\<rparr>"
  by (simp add: branch_eval client_eval string_eval)

text \<open>The same reply with the labels in small letters.\<close>

lemma small_labels_are_removed:
  "fst (suggest_branch_name silent_console
          (reply_client ''primary: fix/login-bug\<newline>alternatives: fix/auth, , fix/session, a, b'')
          ''+line'' [] ()) =
     Inr \<lparr>branch_name = ''fix/login-bug'',
      alternatives = [''fix/auth'', ''fix/session'', ''a'']\<rparr>"
  by (simp add: branch_eval client_eval string_eval)

section \<open>The alternatives\<close>

lemma sub_ordinal_no_digit:
  "line = [] \<or> \<not> isdigit (hd line) \<Longrightarrow> sub_ordinal line = line"
  by (cases line) (auto simp add: sub_ordinal_def)

lemma dropWhile_digits:
  "list_all isdigit ds \<Longrightarrow> rest = [] \<or> \<not> isdigit (hd rest) \<Longrightarrow>
   dropWhile isdigit (ds @ rest) = rest"
  by (induction ds) (cases rest; auto)+

text \<open>
  The marker that is removed: the digits at the start of the line, one period after
  them, and the white space after that.
\<close>

lemma sub_ordinal_marker:
  assumes "ds \<noteq> []" and "list_all isdigit ds" and "rest = [] \<or> \<not> isdigit (hd rest)"
  shows "sub_ordinal (ds @ rest) =
           dropWhile isspace (case rest of [] \<Rightarrow> [] | d # t \<Rightarrow> if d = CHR ''.'' then t else rest)"
proof -
  obtain c cs where ds: "ds = c # cs"
    using assms(1) by (cases ds) auto
  then have c: "isdigit c"
    using assms(2) by simp
  have "dropWhile isdigit ((c # cs) @ rest) = rest"
    using assms(2,3) ds dropWhile_digits by blast
  then show ?thesis
    using c by (simp add: sub_ordinal_def ds Let_def del: dropWhile.simps)
qed

lemma slice_to_length: "0 \<le> n \<Longrightarrow> int (length (slice_to n xs)) \<le> n"
  by (simp add: slice_to_def)

text \<open>
  C4, as the code has it. For a reply \<open>raw\<close> and a count that is not negative,
  \<open>generate_alternative_messages\<close> returns the first \<open>count\<close> of the kept lines, in the
  order of the reply: the stripped reply is split into lines, each line loses its leading
  marker (digits, a period if there is one, white space if there is any) and is trimmed,
  and a line is kept if it is not empty and has at most 50 characters; a longer line is
  left out, not cut. The reply of the specification's example gives \<open>Add tests\<close> and
  \<open>Fix typo\<close>. A marker \<open>2) \<close> is matched too, as far as its digits go, since the
  period and the white space are optional: the digit is removed and the parenthesis
  stays in the line.
\<close>

theorem alternatives_from_numbered_list:
  assumes "fst (client (alternatives_request diff_text style count) w) = Inr (Some raw # others)"
    and "0 \<le> count"
  shows "fst (generate_alternative_messages client diff_text style count w) =
           take (nat count)
             (filter (\<lambda>line. line \<noteq> [] \<and> length line \<le> 50)
                (map (\<lambda>line. str_strip (sub_ordinal line)) (str_split CHR 0x0A (str_strip raw))))
       \<and> int (length (fst (generate_alternative_messages client diff_text style count w))) \<le> count
       \<and> (raw = ''1. Add tests\<newline>2. Fix typo\<newline>3. This line is way too long and exceeds the fifty character cutoff limit\<newline>''
            \<and> count = 3 \<longrightarrow>
          fst (generate_alternative_messages client diff_text style count w) =
            [''Add tests'', ''Fix typo''])
       \<and> str_strip (sub_ordinal ''2. Fix typo'') = ''Fix typo''
       \<and> str_strip (sub_ordinal ''2) Fix typo'') = '') Fix typo''"
proof -
  have p: "fst (generate_alternative_messages client diff_text style count w) =
         parse_alternatives (str_strip raw) count"
    using assms(1) by (rule generate_alternative_messages_reply)
  have "parse_alternatives (str_strip raw) count =
           take (nat count)
             (filter (\<lambda>line. line \<noteq> [] \<and> length line \<le> 50)
                (map (\<lambda>line. str_strip (sub_ordinal line)) (str_split CHR 0x0A (str_strip raw))))"
    using assms(2)
    by (simp add: parse_alternatives_def slice_to_def keep_alternative_def alternative_line_def
        cong: filter_cong map_cong)
  moreover have "int (length (parse_alternatives (str_strip raw) count)) \<le> count"
    using assms(2) by (simp add: parse_alternatives_def slice_to_length)
  moreover have "raw = ''1. Add tests\<newline>2. Fix typo\<newline>3. This line is way too long and exceeds the fifty character cutoff limit\<newline>''
            \<and> count = 3 \<longrightarrow>
          parse_alternatives (str_strip raw) count = [''Add tests'', ''Fix typo'']"
    by (simp add: parse_alternatives_def keep_alternative_def alternative_line_def string_eval)
  moreover have "str_strip (sub_ordinal ''2. Fix typo'') = ''Fix typo''"
    by (simp add: string_eval)
  moreover have "str_strip (sub_ordinal ''2) Fix typo'') = '') Fix typo''"
    by (simp add: string_eval)
  ultimately show ?thesis
    unfolding p by blast
qed

theorem alternatives_from_numbered_list_witness:
  "fst (generate_alternative_messages
      (reply_client ''1. Add tests\<newline>2. Fix typo\<newline>3. This line is way too long and exceeds the fifty character cutoff limit\<newline>'')
      ''+line'' ''conventional'' 3 ()) = [''Add tests'', ''Fix typo'']"
  using alternatives_from_numbered_list
    [of "reply_client ''1. Add tests\<newline>2. Fix typo\<newline>3. This line is way too long and exceeds the fifty character cutoff limit\<newline>''"
        "''+line''" "''conventional''" 3 "()"
        "''1. Add tests\<newline>2. Fix typo\<newline>3. This line is way too long and exceeds the fifty character cutoff limit\<newline>''"
        "[]"]
  by (simp add: commit_eval client_eval string_eval)

text \<open>
  A line with a marker \<open>2) \<close> does not come back as it was: the pattern matches the
  digit, and the alternative starts with the parenthesis.
\<close>

theorem parenthesis_marker_loses_its_digit:
  "fst (generate_alternative_messages (reply_client ''2) Fix typo'')
          ''+line'' ''conventional'' 3 ()) = ['') Fix typo'']
   \<and> sub_ordinal ''2) Fix typo'' \<noteq> ''2) Fix typo''"
  by (simp add: commit_eval client_eval string_eval)

text \<open>
  A reply with other shapes of line: a marker with a parenthesis, an empty line, an
  indented marker (the pattern is anchored at the start of the line, so the marker
  stays), a marker followed by more digits, a line with no marker, and a marker with
  nothing between it and the text.
\<close>

lemma alternatives_of_mixed_lines:
  "fst (generate_alternative_messages
      (reply_client ''1) one\<newline>\<newline> 12.   two  \<newline>3.4 three\<newline>four\<newline>5five'')
      ''+line'' ''conventional'' 5 ()) =
     ['') one'', ''12.   two'', ''4 three'', ''four'', ''five'']"
  by (simp add: commit_eval client_eval string_eval)

text \<open>When the call raises, the three fixed alternatives are returned.\<close>

lemma alternatives_failure:
  "fst (client (alternatives_request diff_text style count) w) = Inl e \<Longrightarrow>
   fst (generate_alternative_messages client diff_text style count w) =
     [''Update files'', ''Add changes'', ''Modify code'']"
  by (cases "client (alternatives_request diff_text style count) w")
     (simp add: generate_alternative_messages_def alternatives_fallback_def)

text \<open>
  A negative count makes \<open>suggestions[:count]\<close> count from the end: all kept lines but
  the last \<open>-count\<close> are returned.
\<close>

lemma alternatives_negative_count:
  "parse_alternatives ''1. one\<newline>2. two\<newline>3. three'' (- 1) = [''one'', ''two'']"
  by (simp add: parse_alternatives_def alternative_line_def keep_alternative_def string_eval)

text \<open>The substitution on short lines.\<close>

lemma sub_ordinal_examples:
  "sub_ordinal ''7'' = []
   \<and> sub_ordinal ''7.'' = []
   \<and> sub_ordinal ''12.   two'' = ''two''
   \<and> sub_ordinal ''1.2.3 x'' = ''2.3 x''
   \<and> sub_ordinal ''x1. y'' = ''x1. y''
   \<and> sub_ordinal '' 12. two'' = '' 12. two''"
  by (simp add: sub_ordinal_def isdigit_def isspace_def)

section \<open>Failure of the generation call\<close>

text \<open>
  What the \<open>except\<close> clause of each operation does with an exception \<open>e\<close> of its
  generation call: it prints the error line, and returns the fallback where the console
  has printed it.
\<close>

lemma commit_failure:
  assumes "str_strip diff_text \<noteq> []"
    and "client (commit_request diff_text style) w = (Inl e, w1)"
    and "console (commit_error_line e) w1 = (Inr (), w2)"
  shows "generate_commit_message console client diff_text max_length style w =
           (Inr commit_fallback, w2)"
  using assms by (simp add: generate_commit_message_def commit_try_def)

lemma branch_failure:
  assumes "str_strip diff_text \<noteq> []"
    and "client (branch_request diff_text context) w = (Inl e, w1)"
    and "console (branch_error_line e) w1 = (Inr (), w2)"
  shows "suggest_branch_name console client diff_text context w = (Inr branch_fallback, w2)"
  using assms by (simp add: suggest_branch_name_def branch_try_def)

lemma pr_failure:
  assumes "str_strip diff_text \<noteq> []"
    and "client (pr_request branch diff_text) w = (Inl e, w1)"
    and "console (pr_error_line e) w1 = (Inr (), w2)"
  shows "summarize_pull_request console client branch diff_text w = (Inr pr_fallback, w2)"
  using assms by (simp add: summarize_pull_request_def pr_try_def)

text \<open>
  When the call for the message answers and only the call for the alternatives raises,
  \<open>generate_alternative_messages\<close> handles the exception itself: the message is the
  parsed one and the suggestions are the three fixed alternatives. Nothing is printed.
\<close>

lemma commit_with_failed_alternatives:
  assumes "str_strip diff_text \<noteq> []"
    and "client (commit_request diff_text style) w = (Inr (Some raw # others), w1)"
    and "client (alternatives_request diff_text style 3) w1 = (Inl e, w2)"
  shows "generate_commit_message console client diff_text max_length style w =
           (Inr \<lparr>commit_message = parse_commit_message (str_strip raw) max_length,
                 confidence = 9 / 10,
                 suggestions = [''Update files'', ''Add changes'', ''Modify code'']\<rparr>, w2)"
  using assms
  by (simp add: generate_commit_message_def commit_try_def content_strip_def
       generate_alternative_messages_def alternatives_fallback_def)

text \<open>
  C5, as the code has it. For a diff that is not blank (or no call would be made): when
  the operation's own generation call raises an exception \<open>e\<close> and the console prints
  the error line of the \<open>except\<close> clause, the operation returns its literal fallback
  object, whole, and no exception reaches the caller; the world is left as the failed
  call and the printed line left it, so no second call is made. In
  \<open>generate_commit_message\<close> a second generation call is made for the alternatives once
  the first has answered with a text \<open>raw\<close>; when that call raises, the result is not
  the fallback: it has the message parsed from \<open>raw\<close>, the confidence 0.9, and the three
  fixed suggestions of \<open>generate_alternative_messages\<close>.
\<close>

theorem generation_failure_returns_fallback:
  assumes "str_strip diff_text \<noteq> []"
  shows "(client (commit_request diff_text style) w = (Inl e, w1)
          \<and> console (commit_error_line e) w1 = (Inr (), w2) \<longrightarrow>
           generate_commit_message console client diff_text max_length style w =
             (Inr \<lparr>commit_message = ''Update project files'', confidence = 0,
                   suggestions = [''Add new feature'', ''Fix bug'', ''Update documentation'']\<rparr>,
              w2))
       \<and> (client (branch_request diff_text context) w = (Inl e, w1)
          \<and> console (branch_error_line e) w1 = (Inr (), w2) \<longrightarrow>
           suggest_branch_name console client diff_text context w =
             (Inr \<lparr>branch_name = ''feature/new-changes'',
                   alternatives = [''feature/updates'', ''feature/modifications'']\<rparr>,
              w2))
       \<and> (client (pr_request branch diff_text) w = (Inl e, w1)
          \<and> console (pr_error_line e) w1 = (Inr (), w2) \<longrightarrow>
           summarize_pull_request console client branch diff_text w =
             (Inr \<lparr>summary = ''Pull request contains code changes'', impact = ''Medium'',
                   testing_notes = ''Review changes before merging''\<rparr>,
              w2))
       \<and> (client (commit_request diff_text style) w = (Inr (Some raw # others), w1)
          \<and> client (alternatives_request diff_text style 3) w1 = (Inl e, w2) \<longrightarrow>
           generate_commit_message console client diff_text max_length style w =
             (Inr \<lparr>commit_message = parse_commit_message (str_strip raw) max_length,
                   confidence = 9 / 10,
                   suggestions = [''Update files'', ''Add changes'', ''Modify code'']\<rparr>,
              w2))"
  using assms
    commit_failure [of diff_text client style w e w1 console w2 max_length]
    branch_failure [of diff_text client "context" w e w1 console w2]
    pr_failure [of diff_text client branch w e w1 console w2]
    commit_with_failed_alternatives [of diff_text client style w raw others w1 e w2 console
      max_length]
  by (simp add: commit_fallback_def branch_fallback_def pr_fallback_def)

theorem generation_failure_returns_fallback_witness:
  "generate_commit_message silent_console (failing_client (APIError ''timeout''))
       ''+line'' 50 ''brief'' () =
             (Inr \<lparr>commit_message = ''Update project files'', confidence = 0,
                   suggestions = [''Add new feature'', ''Fix bug'', ''Update documentation'']\<rparr>,
              ())
   \<and> suggest_branch_name silent_console (failing_client (APIError ''timeout''))
       ''+line'' [] () =
             (Inr \<lparr>branch_name = ''feature/new-changes'',
                   alternatives = [''feature/updates'', ''feature/modifications'']\<rparr>, ())
   \<and> summarize_pull_request silent_console (failing_client (APIError ''timeout''))
       ''main'' ''+line'' () =
             (Inr \<lparr>summary = ''Pull request contains code changes'', impact = ''Medium'',
                   testing_notes = ''Review changes before merging''\<rparr>, ())
   \<and> generate_commit_message silent_console
       (flaky_client ''  Refactor parser  '' (APIError ''timeout''))
       ''+line'' 50 ''brief'' 0 =
             (Inr \<lparr>commit_message = ''Refactor parser'', confidence = 9 / 10,
                   suggestions = [''Update files'', ''Add changes'', ''Modify code'']\<rparr>, 2)"
  using generation_failure_returns_fallback
      [of "''+line''" "failing_client (APIError ''timeout'')" "''brief''" "()"
          "APIError ''timeout''" "()" silent_console "()" 50 "[]" "''main''"]
    generation_failure_returns_fallback
      [of "''+line''" "flaky_client ''  Refactor parser  '' (APIError ''timeout'')" "''brief''"
          0 "APIError ''timeout''" 1 silent_console 2 50 _ _ "''  Refactor parser  ''" "[]"]
  by (simp add: string_eval failing_client_def flaky_client_def silent_console_def
      parse_commit_message_def)

text \<open>
  Two runs that do not end in the fallback object. In the first the call for the message
  answers and the call for the alternatives raises: the result has the parsed message
  and the confidence 0.9 beside three fixed suggestions that are not those of the
  fallback. In the second the generation call raises with the text \<open>bad [/red] tag\<close>:
  the error line then has a closing tag that matches no open tag, the console raises
  \<open>MarkupError\<close> on it, and that exception leaves the operation.
\<close>

theorem generation_failure_without_fallback:
  "fst (generate_commit_message silent_console
          (flaky_client ''Fix bug'' (APIError ''timeout'')) ''+line'' 50 ''conventional'' 0) =
     Inr \<lparr>commit_message = ''Fix bug'', confidence = 9 / 10,
          suggestions = [''Update files'', ''Add changes'', ''Modify code'']\<rparr>
   \<and> fst (generate_commit_message
          (markup_console
             (refusing ''[red]Error generating commit message: bad [/red] tag[/red]''
                ''closing tag '[/red]' at position 52 doesn't match any open tag''))
          (failing_client (APIError ''bad [/red] tag'')) ''+line'' 50 ''conventional'' ()) =
     Inl (MarkupError ''closing tag '[/red]' at position 52 doesn't match any open tag'')"
  by (simp add: commit_eval client_eval string_eval)

text \<open>
  The error line is printed outside any \<open>try\<close> statement: an exception of the console
  leaves the operation, in place of the fallback.
\<close>

lemma error_line_failure_propagates:
  assumes "str_strip diff_text \<noteq> []"
    and "console (commit_error_line e) w1 = (Inl e', w2)"
    and "console (branch_error_line e) w1 = (Inl e', w2)"
    and "console (pr_error_line e) w1 = (Inl e', w2)"
  shows "client (commit_request diff_text style) w = (Inl e, w1) \<Longrightarrow>
           generate_commit_message console client diff_text max_length style w = (Inl e', w2)"
    and "client' (branch_request diff_text context) w = (Inl e, w1) \<Longrightarrow>
           suggest_branch_name console client' diff_text context w = (Inl e', w2)"
    and "client'' (pr_request branch diff_text) w = (Inl e, w1) \<Longrightarrow>
           summarize_pull_request console client'' branch diff_text w = (Inl e', w2)"
  using assms
  by (simp_all add: generate_commit_message_def commit_try_def suggest_branch_name_def
      branch_try_def summarize_pull_request_def pr_try_def)

text \<open>
  A response with no choice, or whose first choice has no text, raises inside the
  \<open>try\<close> statement when the content is read, and ends in the same fallback. The error
  lines of these two exceptions are the ones below.
\<close>

lemma commit_without_content:
  assumes "str_strip diff_text \<noteq> []"
    and "client (commit_request diff_text style) w = (Inr [], w1) \<and> e = IndexError
         \<or> client (commit_request diff_text style) w = (Inr (None # others), w1)
            \<and> e = AttributeError"
    and "console (commit_error_line e) w1 = (Inr (), w2)"
  shows "generate_commit_message console client diff_text max_length style w =
           (Inr commit_fallback, w2)"
  using assms
  by (auto simp add: generate_commit_message_def commit_try_def content_strip_def)

lemma error_lines_without_content:
  "commit_error_line IndexError =
     ''[red]Error generating commit message: list index out of range[/red]''
   \<and> commit_error_line AttributeError =
     ''[red]Error generating commit message: '' @ [CHR 0x27]
     @ ''NoneType' object has no attribute 'strip'' @ [CHR 0x27] @ ''[/red]''"
  by (simp add: commit_error_line_def str_exn_def)

section \<open>A blank diff\<close>

text \<open>
  C6. For a diff that is empty or all white space, each of the three operations returns
  its fixed result and makes no call: the result is the same for every client and every
  console, and the state of the world outside comes back as it was given, also from a
  client that changes the state on every call it gets.
\<close>

theorem blank_diff_makes_no_call:
  assumes "str_strip diff_text = []"
  shows "generate_commit_message console client diff_text max_length style w =
           (Inr \<lparr>commit_message = ''No changes detected'', confidence = 0, suggestions = []\<rparr>,
            w)
       \<and> suggest_branch_name console' client' diff_text context w =
           (Inr \<lparr>branch_name = ''feature/new-changes'',
                 alternatives = [''feature/updates'', ''feature/modifications'']\<rparr>, w)
       \<and> summarize_pull_request console'' client'' branch diff_text w =
           (Inr \<lparr>summary = ''No changes to summarize'', impact = ''Minimal'',
                 testing_notes = ''No specific testing required''\<rparr>, w)"
  using assms
  by (simp add: generate_commit_message_def suggest_branch_name_def summarize_pull_request_def
      commit_nothing_def branch_fallback_def pr_nothing_def)

theorem blank_diff_makes_no_call_witness:
  "generate_commit_message silent_console (counting_client ''Fix bug'')
       '' \<newline>  '' 50 ''conventional'' 0 =
           (Inr \<lparr>commit_message = ''No changes detected'', confidence = 0, suggestions = []\<rparr>,
            0)
       \<and> suggest_branch_name silent_console (counting_client ''primary: a'') '' \<newline>  '' [] 0 =
           (Inr \<lparr>branch_name = ''feature/new-changes'',
                 alternatives = [''feature/updates'', ''feature/modifications'']\<rparr>, 0)
       \<and> summarize_pull_request silent_console (counting_client ''Summary: a'')
            ''main'' '' \<newline>  '' 0 =
           (Inr \<lparr>summary = ''No changes to summarize'', impact = ''Minimal'',
                 testing_notes = ''No specific testing required''\<rparr>, 0)"
  using blank_diff_makes_no_call
    [of "'' \<newline>  ''" silent_console "counting_client ''Fix bug''" 50 "''conventional''" 0
        silent_console "counting_client ''primary: a''" "[]"
        silent_console "counting_client ''Summary: a''" "''main''"]
  by (simp add: string_eval)

text \<open>
  The counting client on a diff that is not blank: two calls for a commit message (the
  second for the alternatives), one for a branch name, one for a summary.
\<close>

lemma calls_on_a_diff:
  "snd (generate_commit_message silent_console (counting_client ''Fix bug'')
          ''+line'' 50 ''conventional'' 0) = 2
   \<and> snd (suggest_branch_name silent_console (counting_client ''primary: a'')
          ''+line'' [] 0) = 1
   \<and> snd (summarize_pull_request silent_console (counting_client ''Summary: a'')
          ''main'' ''+line'' 0) = 1"
  by (simp add: commit_eval branch_eval pr_eval client_eval string_eval)

section \<open>Quotes around the commit message\<close>

lemma sub_quotes_wrapped:
  "isquote q \<Longrightarrow> isquote q' \<Longrightarrow> sub_quotes (q # body @ [q']) = body"
  by (simp add: sub_quotes_def)

text \<open>At most the first and the last character go: what lies between is not touched.\<close>

lemma sub_quotes_inside:
  "\<not> isquote c \<Longrightarrow> \<not> isquote d \<Longrightarrow> d \<noteq> CHR 0x0A \<Longrightarrow>
   sub_quotes (c # body @ [d]) = c # body @ [d]"
  by (simp add: sub_quotes_def)

text \<open>
  C7. For a diff that is not blank and a reply \<open>raw\<close>: when the trimmed reply is a text
  \<open>body\<close> between two equal quote characters, the commit message is made of \<open>body\<close> as
  it is (\<open>body\<close> itself where it is within \<open>max_length\<close>), so just the outer pair of
  quotes is removed and quotes inside stay; the reply \<open>"Fix bug"\<close> gives \<open>Fix bug\<close>, and
  the reply \<open>Fix "quoted" bug\<close> comes back unchanged.
\<close>

theorem commit_message_outer_quotes:
  assumes "str_strip diff_text \<noteq> []"
    and "fst (client (commit_request diff_text style) w) = Inr (Some raw # others)"
  shows \<open>\<exists>r. fst (generate_commit_message console client diff_text L style w) = Inr r
      \<and> (isquote q \<and> str_strip raw = q # body @ [q] \<longrightarrow>
            commit_message r =
              (if L < int (length body) then slice_to (L - 3) body @ ''...'' else body))
      \<and> (raw = ''"Fix bug"'' \<and> 7 \<le> L \<longrightarrow> commit_message r = ''Fix bug'')
      \<and> (raw = ''Fix "quoted" bug'' \<and> 16 \<le> L \<longrightarrow> commit_message r = ''Fix "quoted" bug'')\<close>
proof -
  obtain r where r: "fst (generate_commit_message console client diff_text L style w) = Inr r"
    and m: "commit_message r = parse_commit_message (str_strip raw) L"
    using assms generate_commit_message_reply [of diff_text client style w raw others console L]
    by blast
  have "isquote q \<and> str_strip raw = q # body @ [q] \<longrightarrow>
          parse_commit_message (str_strip raw) L =
            (if L < int (length body) then slice_to (L - 3) body @ ''...'' else body)"
    by (simp add: parse_commit_message_def sub_quotes_wrapped Let_def)
  moreover have \<open>raw = ''"Fix bug"'' \<and> 7 \<le> L \<longrightarrow>
          parse_commit_message (str_strip raw) L = ''Fix bug''\<close>
    by (simp add: parse_commit_message_def string_eval)
  moreover have \<open>raw = ''Fix "quoted" bug'' \<and> 16 \<le> L \<longrightarrow>
          parse_commit_message (str_strip raw) L = ''Fix "quoted" bug''\<close>
    by (simp add: parse_commit_message_def string_eval)
  ultimately show ?thesis
    using r unfolding m [symmetric] by blast
qed

theorem commit_message_outer_quotes_witness:
  \<open>(\<exists>r. fst (generate_commit_message silent_console (reply_client '' 'Fix "quoted" bug' '')
        ''+line'' 50 ''conventional'' ()) = Inr r \<and> commit_message r = ''Fix "quoted" bug'')
   \<and> (\<exists>r. fst (generate_commit_message silent_console (reply_client ''"Fix bug"'')
        ''+line'' 50 ''conventional'' ()) = Inr r \<and> commit_message r = ''Fix bug'')
   \<and> (\<exists>r. fst (generate_commit_message silent_console (reply_client ''Fix "quoted" bug'')
        ''+line'' 50 ''conventional'' ()) = Inr r \<and> commit_message r = ''Fix "quoted" bug'')\<close>
  using commit_message_outer_quotes
      [of \<open>''+line''\<close> \<open>reply_client '' 'Fix "quoted" bug' ''\<close> \<open>''conventional''\<close> \<open>()\<close>
          \<open>'' 'Fix "quoted" bug' ''\<close> \<open>[]\<close> silent_console 50 \<open>CHR 0x27\<close>
          \<open>''Fix "quoted" bug''\<close>]
    commit_message_outer_quotes
      [of \<open>''+line''\<close> \<open>reply_client ''"Fix bug"''\<close> \<open>''conventional''\<close> \<open>()\<close>
          \<open>''"Fix bug"''\<close> \<open>[]\<close> silent_console 50 \<open>CHR 0x22\<close> \<open>''Fix bug''\<close>]
    commit_message_outer_quotes
      [of \<open>''+line''\<close> \<open>reply_client ''Fix "quoted" bug''\<close> \<open>''conventional''\<close> \<open>()\<close>
          \<open>''Fix "quoted" bug''\<close> \<open>[]\<close> silent_console 50 \<open>CHR 0x22\<close> \<open>[]\<close>]
  by (simp add: reply_client_def string_eval)

text \<open>
  The two quote characters need not be equal, a single quote at one end goes as well,
  and white space inside the quotes stays: the reply is trimmed before the quotes are
  removed, not after.
\<close>

lemma quotes_at_either_end:
  \<open>parse_commit_message (''"Fix bug'' @ [CHR 0x27]) 50 = ''Fix bug''
   \<and> parse_commit_message ''"Fix bug'' 50 = ''Fix bug''
   \<and> parse_commit_message ''" Fix bug "'' 50 = '' Fix bug ''\<close>
  by (simp add: parse_commit_message_def string_eval)

text \<open>
  The substitution on short texts: a lone quote, two quotes, a quote at one end only, two
  quotes at the end, and a quote before a line break that ends the text.
\<close>

lemma sub_quotes_examples:
  \<open>sub_quotes ''"'' = []
   \<and> sub_quotes ''""'' = []
   \<and> sub_quotes ''"a'' = ''a''
   \<and> sub_quotes ''a"'' = ''a''
   \<and> sub_quotes ''a""'' = ''a"''
   \<and> sub_quotes ''"a"\<newline>"'' = ''a"\<newline>''
   \<and> sub_quotes ''a"\<newline>'' = ''a\<newline>''
   \<and> sub_quotes ''""\<newline>'' = ''\<newline>''\<close>
  by (simp add: sub_quotes_def isquote_def)

section \<open>The characters of a branch name\<close>

lemma lower_char_not_capital:
  "\<not> (65 \<le> (of_char (lower_char c) :: nat) \<and> (of_char (lower_char c) :: nat) \<le> 90)"
  by (auto simp add: lower_char_def isupper_def Let_def)

lemma branch_char_lower:
  "branch_char (lower_char c) = branch_charset (lower_char c)"
  using lower_char_not_capital [of c]
  by (auto simp add: branch_char_def branch_charset_def Let_def)

lemma clean_branch_name_map:
  "clean_branch_name v =
     map (\<lambda>c. if branch_charset c then c else CHR ''-'') (str_lower v)"
  by (simp add: clean_branch_name_def sub_branch_chars_def str_lower_def branch_char_lower)

lemma hyphenated_charset:
  "list_all branch_charset (map (\<lambda>c. if branch_charset c then c else CHR ''-'') s)"
  by (induction s) (simp_all add: branch_charset_def)

lemma clean_branch_name_charset: "list_all branch_charset (clean_branch_name v)"
  by (simp add: clean_branch_name_map hyphenated_charset)

lemma list_all_take: "list_all P xs \<Longrightarrow> list_all P (take n xs)"
  by (auto simp add: list_all_iff dest: in_set_takeD)

lemma parse_branch_names_charset:
  "list_all branch_charset (branch_name (parse_branch_names content))
   \<and> list_all (list_all branch_charset) (alternatives (parse_branch_names content))"
proof -
  obtain primary alts where scan: "branch_scan content = (primary, alts)"
    by (cases "branch_scan content")
  have "list_all (list_all branch_charset) (map clean_branch_name alts)"
    by (induction alts) (simp_all add: clean_branch_name_charset)
  then have "list_all (list_all branch_charset) (take 3 (map clean_branch_name alts))"
    by (rule list_all_take)
  then show ?thesis
    by (simp add: parse_branch_names_def scan clean_branch_name_charset)
qed

lemma branch_fallback_charset:
  "list_all branch_charset (branch_name branch_fallback)
   \<and> list_all (list_all branch_charset) (alternatives branch_fallback)"
  by (simp add: branch_fallback_def branch_charset_def)

lemma suggest_branch_name_cases:
  "(\<exists>e. fst (suggest_branch_name console client diff_text context w) = Inl e)
   \<or> fst (suggest_branch_name console client diff_text context w) = Inr branch_fallback
   \<or> (\<exists>content. fst (suggest_branch_name console client diff_text context w) =
         Inr (parse_branch_names content))"
  by (auto simp add: suggest_branch_name_def branch_try_def split: prod.splits sum.splits)

text \<open>
  C8. The clean-up of \<open>suggest_branch_name\<close> turns a value \<open>v\<close> into its lowered text
  with every character outside \<open>[a-z0-9/-]\<close> replaced by one hyphen (the result has the
  length of the lowered text); it is applied to the primary value and to every alternative that the
  loop over the reply's lines ends with; every string of every result of
  \<open>suggest_branch_name\<close>, whatever the client and the console do, is made of characters
  of \<open>[a-z0-9/-]\<close>; and \<open>Feature/New Auth!!\<close> becomes \<open>feature/new-auth--\<close>.
\<close>

theorem branch_names_normalized:
  "clean_branch_name v = map (\<lambda>c. if branch_charset c then c else CHR ''-'') (str_lower v)
   \<and> length (clean_branch_name v) = length (str_lower v)
   \<and> parse_branch_names content =
       \<lparr>branch_name = clean_branch_name (fst (branch_scan content)),
        alternatives = take 3 (map clean_branch_name (snd (branch_scan content)))\<rparr>
   \<and> (\<forall>r. fst (suggest_branch_name console client diff_text context w) = Inr r \<longrightarrow>
         list_all branch_charset (branch_name r)
         \<and> list_all (list_all branch_charset) (alternatives r))
   \<and> clean_branch_name ''Feature/New Auth!!'' = ''feature/new-auth--''"
proof -
  have "parse_branch_names content =
       \<lparr>branch_name = clean_branch_name (fst (branch_scan content)),
        alternatives = take 3 (map clean_branch_name (snd (branch_scan content)))\<rparr>"
    by (simp add: parse_branch_names_def split: prod.splits)
  moreover have "\<forall>r. fst (suggest_branch_name console client diff_text context w) = Inr r \<longrightarrow>
         list_all branch_charset (branch_name r)
         \<and> list_all (list_all branch_charset) (alternatives r)"
    using suggest_branch_name_cases [of console client diff_text "context" w]
      branch_fallback_charset parse_branch_names_charset by auto
  moreover have "clean_branch_name ''Feature/New Auth!!'' = ''feature/new-auth--''"
    by (simp add: clean_branch_name_def string_eval)
  moreover have "length (clean_branch_name v) = length (str_lower v)"
    by (simp add: clean_branch_name_map)
  ultimately show ?thesis
    using clean_branch_name_map by simp
qed

theorem branch_names_normalized_witness:
  "fst (suggest_branch_name silent_console
          (reply_client ''primary: Feature/New Auth!!\<newline>alternatives: Fix Login, auth_v2'')
          ''+line'' [] ()) =
     Inr \<lparr>branch_name = ''feature/new-auth--'', alternatives = [''fix-login'', ''auth-v2'']\<rparr>
   \<and> list_all branch_charset ''feature/new-auth--''
   \<and> list_all (list_all branch_charset) [''fix-login'', ''auth-v2'']"
  using branch_names_normalized
    [of "''Feature/New Auth!!''"
        "''primary: Feature/New Auth!!\<newline>alternatives: Fix Login, auth_v2''"
        silent_console
        "reply_client ''primary: Feature/New Auth!!\<newline>alternatives: Fix Login, auth_v2''"
        "''+line''" "[]" "()"]
  by (simp add: branch_eval client_eval string_eval branch_charset_def)

section \<open>The decision in the interactive flows\<close>

lemma print_colored_frame:
  "git (print_colored text color s) = git s"
  "stdin (print_colored text color s) = stdin s"
  "service (print_colored text color s) = service s"
  "terminal (print_colored text color s) = terminal s @ [Print color text]"
  by (simp_all add: print_colored_def)

text \<open>
  In \<open>interactive_commit_flow\<close> an edit with nothing typed (or white space only) is
  refused: no command is run, whatever the repository does with commands, the error is
  the last thing printed, and the flow returns.
\<close>

lemma interactive_edit_empty_refused:
  assumes "stdin s = answer # typed # rest"
    and "str_strip (str_lower answer) = ''e''"
    and "str_strip typed = []"
  shows "fst (commit_decision env result s) = Inr ()
       \<and> git (snd (commit_decision env result s)) = git s
       \<and> last (terminal (snd (commit_decision env result s))) =
           Print RED ''Commit message cannot be empty.''"
  using assms
  by (simp add: commit_decision_def input_def print_colored_def)

text \<open>In both flows an answer that is neither accept nor edit runs no command.\<close>

lemma interactive_other_choice_no_commit:
  assumes "stdin s = answer # rest"
    and "str_strip (str_lower answer) \<noteq> ''y''"
    and "str_strip (str_lower answer) \<noteq> ''e''"
  shows "fst (commit_decision env result s) = Inr ()
       \<and> git (snd (commit_decision env result s)) = git s"
  using assms
  by (simp add: commit_decision_def input_def print_colored_def Let_def)

lemma run_cli_other_choice_no_commit:
  assumes "stdin s = answer # rest"
    and "str_lower answer \<noteq> ''y''"
    and "str_lower answer \<noteq> ''edit''"
  shows "git (snd (run_cli_decision rich env result s)) = git s"
  using assms
  by (simp add: run_cli_decision_def console_input_def console_print_def input_def
      split: option.splits)

text \<open>
  In \<open>run_cli\<close> an edit runs \<open>git commit -m\<close> with what was typed, whatever it is: the
  repository is left as that command leaves it, whether or not the line printed after it
  raises. The two prompts below have no markup.
\<close>

lemma run_cli_edit_commits_what_is_typed:
  assumes "stdin s = answer # typed # rest"
    and "str_lower answer = ''edit''"
    and "rich ''\<newline>Use this message? (y/n/edit): '' = None"
    and "rich ''Enter your commit message: '' = None"
  shows "git (snd (run_cli_decision rich env result s)) =
           snd (run_checked env [''git'', ''commit'', ''-m'', typed] (git s))"
proof -
  obtain out g' where r: "run_checked env [''git'', ''commit'', ''-m'', typed] (git s) = (out, g')"
    by (cases "run_checked env [''git'', ''commit'', ''-m'', typed] (git s)")
  show ?thesis
    using assms
    by (cases out)
       (simp_all add: run_cli_decision_def console_input_def console_print_def input_def
         handler_commit_changes_def handler_run_def print_colored_def r
         split: option.splits)
qed

text \<open>
  C9 does not hold of \<open>run_cli\<close>. With a staged diff, the answer \<open>edit\<close> and an empty
  replacement, \<open>run_cli\<close> runs \<open>git commit -m\<close> with the empty message: the third command
  in the repository's record. \<open>interactive_commit_flow\<close> tests the replacement before
  it commits; \<open>run_cli\<close> has no such test. Every text printed in this run is well
  formed markup.
\<close>

theorem run_cli_commits_empty_message:
  "git (snd (run_cli well_formed (recording_git ''+line'' ''a.py'') (reply_client ''Fix bug'')
          \<lparr>git = [], service = (), stdin = [''edit'', []], terminal = []\<rparr>)) =
     [[''git'', ''diff'', ''--cached'', ''--name-only''],
      [''git'', ''diff'', ''--cached''],
      [''git'', ''commit'', ''-m'', []]]"
  by (simp add: flow_eval commit_eval client_eval string_eval)

text \<open>What the console of that run has printed and asked, and how the run ends.\<close>

lemma run_cli_empty_message_terminal:
  "fst (run_cli well_formed (recording_git ''+line'' ''a.py'') (reply_client ''Fix bug'')
          \<lparr>git = [], service = (), stdin = [''edit'', []], terminal = []\<rparr>) = Inr ()
   \<and> terminal (snd (run_cli well_formed (recording_git ''+line'' ''a.py'')
          (reply_client ''Fix bug'')
          \<lparr>git = [], service = (), stdin = [''edit'', []], terminal = []\<rparr>)) =
       [Console ''[bold blue]GitWhisperer AI[/bold blue]\<newline>AI-powered Git commit assistant'',
        Console ''[cyan]Generating commit message...[/cyan]'',
        Console ''[bold green]Suggested Commit Message:[/bold green]\<newline>Fix bug'',
        Console ''[cyan]Alternative suggestions:[/cyan]'',
        Console ''  1. Fix bug'',
        Input ''\<newline>Use this message? (y/n/edit): '',
        Input ''Enter your commit message: '',
        Print PLAIN
          ''Error committing changes: Aborting commit due to empty commit message.'',
        Console ''[red]Failed to commit changes.[/red]'']"
  by (simp add: flow_eval commit_eval client_eval string_eval)

text \<open>
  The same repository and the same typing (\<open>e\<close> for edit) in
  \<open>interactive_commit_flow\<close>: no commit command is run, and the flow returns after the
  error.
\<close>

lemma interactive_commit_flow_refuses_empty_message:
  "fst (interactive_commit_flow well_formed (recording_git ''+line'' ''a.py'')
          (reply_client ''Fix bug'')
          \<lparr>git = [], service = (), stdin = [''e'', []], terminal = []\<rparr>) = None
   \<and> git (snd (interactive_commit_flow well_formed (recording_git ''+line'' ''a.py'')
          (reply_client ''Fix bug'')
          \<lparr>git = [], service = (), stdin = [''e'', []], terminal = []\<rparr>)) =
       [[''git'', ''rev-parse'', ''--git-dir''], [''git'', ''diff'', ''--cached'']]
   \<and> last (terminal (snd (interactive_commit_flow well_formed (recording_git ''+line'' ''a.py'')
          (reply_client ''Fix bug'')
          \<lparr>git = [], service = (), stdin = [''e'', []], terminal = []\<rparr>))) =
       Print RED ''Commit message cannot be empty.''"
  by (simp add: flow_eval commit_eval client_eval string_eval)

text \<open>
  \<open>run_cli\<close> prints the generated message through the markup of the console, with no
  \<open>try\<close> statement around it: on the reply \<open>Fix [/bold] bug\<close> the panel has a closing
  tag that matches no open tag, and \<open>MarkupError\<close> leaves \<open>run_cli\<close> before the user is
  asked anything.
\<close>

lemma run_cli_markup_in_message:
  "run_cli
     (refusing ''[bold green]Suggested Commit Message:[/bold green]\<newline>Fix [/bold] bug''
        ''closing tag '[/bold]' at position 55 doesn't match any open tag'')
     (recording_git ''+line'' ''a.py'') (reply_client ''Fix [/bold] bug'')
     \<lparr>git = [], service = (), stdin = [''y''], terminal = []\<rparr> =
   (Inl (MarkupError ''closing tag '[/bold]' at position 55 doesn't match any open tag''),
    \<lparr>git = [[''git'', ''diff'', ''--cached'', ''--name-only''], [''git'', ''diff'', ''--cached'']],
     service = (), stdin = [''y''],
     terminal =
       [Console ''[bold blue]GitWhisperer AI[/bold blue]\<newline>AI-powered Git commit assistant'',
        Console ''[cyan]Generating commit message...[/cyan]'']\<rparr>)"
  by (simp add: flow_eval commit_eval client_eval string_eval)

text \<open>
  In \<open>interactive_commit_flow\<close> an exception that leaves the operation is caught by the
  \<open>except\<close> clause of the flow and printed with \<open>print\<close>, which reads no markup.
\<close>

lemma interactive_commit_flow_catches_markup_error:
  "interactive_commit_flow
     (refusing ''[red]Error generating commit message: bad [/red] tag[/red]''
        ''closing tag '[/red]' at position 52 doesn't match any open tag'')
     (recording_git ''+line'' ''a.py'') (failing_client (APIError ''bad [/red] tag''))
     \<lparr>git = [], service = (), stdin = [], terminal = []\<rparr> =
   (None,
    \<lparr>git = [[''git'', ''rev-parse'', ''--git-dir''], [''git'', ''diff'', ''--cached'']],
     service = (), stdin = [],
     terminal =
       [Print GREEN (CHR 0x0A # replicate 60 CHR ''=''),
        Print BOLD ''GitWhisperer AI Commit Assistant'',
        Print GREEN (replicate 60 CHR ''=''),
        Print BLUE ''Analyzing changes...'',
        Print RED (''Error generating commit message: ''
                   @ ''closing tag '[/red]' at position 52 doesn't match any open tag''),
        Print PLAIN ''Please check your OpenAI API key and internet connection.'']\<rparr>)"
  by (simp add: flow_eval commit_eval client_eval string_eval)

section \<open>Parsing the canonical text of a summary\<close>

lemma str_split_no_sep: "sep \<notin> set a \<Longrightarrow> str_split sep a = [a]"
  by (induction a) auto

lemma str_split_append:
  "sep \<notin> set a \<Longrightarrow> str_split sep (a @ sep # rest) = a # str_split sep rest"
  by (induction a) auto

lemma dropWhile_same_length: "length (dropWhile P xs) = length xs \<Longrightarrow> dropWhile P xs = xs"
  by (metis append_self_conv2 length_0_conv length_append add_cancel_right_left takeWhile_dropWhile_id
      add.commute)

lemma length_str_rstrip: "length (str_rstrip s) \<le> length s"
  by (simp add: str_rstrip_def) (metis length_dropWhile_le length_rev)

lemma trimmed_lstrip: "str_strip s = s \<Longrightarrow> str_lstrip s = s"
proof -
  assume a: "str_strip s = s"
  have "length (str_strip s) \<le> length (str_lstrip s)"
    by (simp add: str_strip_def length_str_rstrip)
  moreover have "length (str_lstrip s) \<le> length s"
    by (simp add: str_lstrip_def length_dropWhile_le)
  ultimately have "length (str_lstrip s) = length s"
    using a by simp
  then show ?thesis
    by (simp add: str_lstrip_def dropWhile_same_length)
qed

lemma trimmed_rstrip: "str_strip s = s \<Longrightarrow> str_rstrip s = s"
  using trimmed_lstrip [of s] by (simp add: str_strip_def)

lemma str_rstrip_append:
  "str_rstrip (xs @ ys) = (if str_rstrip ys = [] then str_rstrip xs else xs @ str_rstrip ys)"
  by (auto simp add: str_rstrip_def dropWhile_append)

text \<open>
  Stripping the canonical text changes it only when the testing notes are empty: then
  the blank after the last label goes.
\<close>

lemma str_strip_pr_text:
  assumes "str_strip t = t"
  shows "str_strip (pr_text s i t) =
           ''Summary: '' @ s @ ''\<newline>Impact: '' @ i
           @ (if t = [] then ''\<newline>Testing:'' else ''\<newline>Testing: '' @ t)"
proof -
  have l: "str_lstrip (pr_text s i t) = pr_text s i t"
    by (simp add: pr_text_def str_lstrip_def isspace_def)
  have e: "str_rstrip ''\<newline>Testing: '' = ''\<newline>Testing:''"
    by (simp add: str_rstrip_def isspace_def)
  have "str_rstrip (''\<newline>Testing: '' @ t) =
          (if str_rstrip t = [] then str_rstrip ''\<newline>Testing: ''
           else ''\<newline>Testing: '' @ str_rstrip t)"
    by (rule str_rstrip_append)
  then have r: "str_rstrip (''\<newline>Testing: '' @ t) =
          (if t = [] then ''\<newline>Testing:'' else ''\<newline>Testing: '' @ t)"
    using trimmed_rstrip [OF assms] e by simp
  have n: "str_rstrip (''\<newline>Testing: '' @ t) \<noteq> []"
    using r by simp
  have "str_rstrip ((''Summary: '' @ s @ ''\<newline>Impact: '' @ i) @ (''\<newline>Testing: '' @ t)) =
          (''Summary: '' @ s @ ''\<newline>Impact: '' @ i) @ str_rstrip (''\<newline>Testing: '' @ t)"
    using n by (simp only: str_rstrip_append if_False)
  then have "str_rstrip (pr_text s i t) =
          ''Summary: '' @ s @ ''\<newline>Impact: '' @ i @ str_rstrip (''\<newline>Testing: '' @ t)"
    by (simp add: pr_text_def)
  with l r show ?thesis
    by (simp add: str_strip_def)
qed

lemma lines_pr_text:
  assumes "str_strip t = t"
    and "CHR 0x0A \<notin> set s" and "CHR 0x0A \<notin> set i" and "CHR 0x0A \<notin> set t"
  shows "str_split CHR 0x0A (str_strip (pr_text s i t)) =
           [''Summary: '' @ s, ''Impact: '' @ i, if t = [] then ''Testing:'' else ''Testing: '' @ t]"
  using assms
  by (simp add: str_strip_pr_text str_split_append str_split_no_sep)

lemma pr_line_labelled:
  "str_strip v = v \<Longrightarrow> pr_line r (''Summary: '' @ v) = r\<lparr>summary := v\<rparr>"
  "str_strip v = v \<Longrightarrow> pr_line r (''Impact: '' @ v) = r\<lparr>impact := v\<rparr>"
  "str_strip v = v \<Longrightarrow> pr_line r (''Testing: '' @ v) = r\<lparr>testing_notes := v\<rparr>"
  "pr_line r ''Testing:'' = r\<lparr>testing_notes := []\<rparr>"
  by (simp_all add: pr_line_def str_startswith_def sub_label_def isspace_def str_strip_dropWhile)
     (simp add: str_strip_def str_lstrip_def str_rstrip_def)

lemma parse_pr_text:
  assumes "str_strip s = s" and "str_strip i = i" and "str_strip t = t"
    and "CHR 0x0A \<notin> set s" and "CHR 0x0A \<notin> set i" and "CHR 0x0A \<notin> set t"
  shows "parse_pr_summary (str_strip (pr_text s i t)) =
           \<lparr>summary = s, impact = i, testing_notes = t\<rparr>"
  using assms
  by (simp add: parse_pr_summary_def lines_pr_text pr_line_labelled [simplified] pr_defaults_def)

lemma str_split_not_empty: "str_split sep s \<noteq> []"
  by (induction s) (auto split: list.splits)

lemma str_split_pieces: "piece \<in> set (str_split sep s) \<Longrightarrow> sep \<notin> set piece"
proof (induction s arbitrary: piece)
  case Nil
  then show ?case by simp
next
  case (Cons c s)
  show ?case
  proof (cases "c = sep")
    case True
    with Cons show ?thesis by auto
  next
    case False
    obtain p ps where sp: "str_split sep s = p # ps"
      using str_split_not_empty [of sep s] by (cases "str_split sep s") auto
    with Cons False show ?thesis by auto
  qed
qed

lemma set_str_strip: "set (str_strip s) \<subseteq> set s"
  by (auto simp add: str_strip_def str_rstrip_def str_lstrip_def dest!: set_dropWhileD)

lemma str_strip_idem: "str_strip (str_strip s) = str_strip s"
proof -
  define y where "y = dropWhile isspace s"
  define z where "z = rev (dropWhile isspace (rev y))"
  have z: "str_strip s = z"
    by (simp add: str_strip_def str_rstrip_def str_lstrip_def y_def z_def)
  have "rev y = takeWhile isspace (rev y) @ dropWhile isspace (rev y)"
    by simp
  then have "y = z @ rev (takeWhile isspace (rev y))"
    unfolding z_def by (metis rev_append rev_rev_ident)
  then have hd: "z \<noteq> [] \<Longrightarrow> hd z = hd y \<and> y \<noteq> []"
    by (metis hd_append2 append_is_Nil_conv)
  have "dropWhile isspace z = z"
  proof (cases "z = []")
    case True
    then show ?thesis by simp
  next
    case False
    then have "hd z = hd y" and "y \<noteq> []"
      using hd by simp_all
    then have "\<not> isspace (hd z)"
      using hd_dropWhile [of isspace s] by (simp add: y_def)
    with False show ?thesis
      by (cases z) simp_all
  qed
  moreover have "rev (dropWhile isspace (rev z)) = z"
    by (simp add: z_def)
  ultimately have "rev (dropWhile isspace (rev (dropWhile isspace z))) = z"
    by (simp only:)
  then have "str_strip z = z"
    by (simp only: str_strip_def str_rstrip_def str_lstrip_def)
  then show ?thesis
    by (simp only: z)
qed

lemma field_value_strip: "CHR 0x0A \<notin> set v \<Longrightarrow> field_value (str_strip v)"
  using set_str_strip [of v] by (auto simp add: field_value_def str_strip_idem)

lemma field_value_sub_label:
  assumes "CHR 0x0A \<notin> set line"
  shows "field_value (str_strip (sub_label label line))"
proof -
  have "set (sub_label label line) \<subseteq> set line"
    by (auto simp add: sub_label_def dest!: set_dropWhileD in_set_dropD)
  with assms show ?thesis
    by (auto intro: field_value_strip)
qed

lemma pr_line_field_values:
  assumes "CHR 0x0A \<notin> set line"
    and "field_value (summary r) \<and> field_value (impact r) \<and> field_value (testing_notes r)"
  shows "field_value (summary (pr_line r line)) \<and> field_value (impact (pr_line r line))
       \<and> field_value (testing_notes (pr_line r line))"
  using assms field_value_sub_label [OF assms(1)]
  by (simp add: pr_line_def)

lemma foldl_pr_line_field_values:
  assumes "\<forall>line \<in> set lines. CHR 0x0A \<notin> set line"
    and "field_value (summary r) \<and> field_value (impact r) \<and> field_value (testing_notes r)"
  shows "field_value (summary (foldl pr_line r lines))
       \<and> field_value (impact (foldl pr_line r lines))
       \<and> field_value (testing_notes (foldl pr_line r lines))"
  using assms
proof (induction lines arbitrary: r)
  case Nil
  then show ?case by simp
next
  case (Cons line lines)
  then show ?case
    using pr_line_field_values [of line r] by simp
qed

text \<open>Every field the parser returns is trimmed and on one line.\<close>

lemma parse_pr_summary_field_values:
  "field_value (summary (parse_pr_summary content))
   \<and> field_value (impact (parse_pr_summary content))
   \<and> field_value (testing_notes (parse_pr_summary content))"
proof -
  have "field_value (summary pr_defaults) \<and> field_value (impact pr_defaults)
        \<and> field_value (testing_notes pr_defaults)"
    by (simp add: pr_defaults_def field_value_def string_eval)
  then show ?thesis
    unfolding parse_pr_summary_def
    using foldl_pr_line_field_values [of "str_split CHR 0x0A content" pr_defaults]
      str_split_pieces [of _ "CHR 0x0A" content]
    by blast
qed

text \<open>
  C10. A text in the canonical format, one line \<open>Summary: ...\<close>, one line
  \<open>Impact: ...\<close>, one line \<open>Testing: ...\<close>, whose three values are trimmed and hold no
  line break, parses to exactly these three values. The fields the parser returns are
  always such values: so the canonical text of a parsed summary parses to the same
  summary again, for every reply.
\<close>

theorem pr_summary_parsing_idempotent:
  "(str_strip s = s \<and> str_strip i = i \<and> str_strip t = t
      \<and> CHR 0x0A \<notin> set s \<and> CHR 0x0A \<notin> set i \<and> CHR 0x0A \<notin> set t \<longrightarrow>
    parse_pr_summary (str_strip (''Summary: '' @ s @ ''\<newline>Impact: '' @ i @ ''\<newline>Testing: '' @ t)) =
      \<lparr>summary = s, impact = i, testing_notes = t\<rparr>)
   \<and> parse_pr_summary
        (str_strip (''Summary: '' @ summary (parse_pr_summary content)
           @ ''\<newline>Impact: '' @ impact (parse_pr_summary content)
           @ ''\<newline>Testing: '' @ testing_notes (parse_pr_summary content))) =
       parse_pr_summary content"
proof -
  have a: "str_strip s = s \<and> str_strip i = i \<and> str_strip t = t
      \<and> CHR 0x0A \<notin> set s \<and> CHR 0x0A \<notin> set i \<and> CHR 0x0A \<notin> set t \<longrightarrow>
    parse_pr_summary (str_strip (pr_text s i t)) = \<lparr>summary = s, impact = i, testing_notes = t\<rparr>"
    using parse_pr_text [of s i t] by blast
  have "parse_pr_summary
        (str_strip (pr_text (summary (parse_pr_summary content))
           (impact (parse_pr_summary content)) (testing_notes (parse_pr_summary content)))) =
       \<lparr>summary = summary (parse_pr_summary content), impact = impact (parse_pr_summary content),
        testing_notes = testing_notes (parse_pr_summary content)\<rparr>"
    using parse_pr_summary_field_values [of content]
    by (intro parse_pr_text) (simp_all add: field_value_def)
  then have b: "parse_pr_summary
        (str_strip (pr_text (summary (parse_pr_summary content))
           (impact (parse_pr_summary content)) (testing_notes (parse_pr_summary content)))) =
       parse_pr_summary content"
    by simp
  from a b show ?thesis
    unfolding pr_text_def by blast
qed

theorem pr_summary_parsing_idempotent_witness:
  "parse_pr_summary (str_strip ''Summary: Adds a retry loop\<newline>Impact: Low\<newline>Testing: '') =
     \<lparr>summary = ''Adds a retry loop'', impact = ''Low'', testing_notes = []\<rparr>
   \<and> parse_pr_summary (str_strip ''Impact:  High \<newline>note\<newline>Summary:Adds  a cache'') =
     \<lparr>summary = ''Adds  a cache'', impact = ''High'',
      testing_notes = ''Standard testing procedures apply''\<rparr>
   \<and> parse_pr_summary (str_strip
        ''Summary: Adds  a cache\<newline>Impact: High\<newline>Testing: Standard testing procedures apply'') =
     \<lparr>summary = ''Adds  a cache'', impact = ''High'',
      testing_notes = ''Standard testing procedures apply''\<rparr>"
  using pr_summary_parsing_idempotent
      [of "''Adds a retry loop''" "''Low''" "[]"
          "str_strip ''Impact:  High \<newline>note\<newline>Summary:Adds  a cache''"]
  by (simp add: pr_eval string_eval)

text \<open>
  The same through \<open>summarize_pull_request\<close>, for a client that answers with the canonical
  text.
\<close>

lemma summarize_pull_request_canonical:
  assumes "str_strip diff_text \<noteq> []"
    and "fst (client (pr_request branch diff_text) w) = Inr (Some (pr_text s i t) # others)"
    and "field_value s" and "field_value i" and "field_value t"
  shows "fst (summarize_pull_request console client branch diff_text w) =
           Inr \<lparr>summary = s, impact = i, testing_notes = t\<rparr>"
  using assms parse_pr_text [of s i t]
    summarize_pull_request_reply [of diff_text client branch w "pr_text s i t" others console]
  by (simp add: field_value_def)

text \<open>
  The summary that the command-line tool copies to the clipboard labels the testing notes
  \<open>Testing Notes:\<close>, which does not start with \<open>Testing:\<close>: parsed again, that text gives
  the default testing notes.
\<close>

lemma clipboard_text_is_not_canonical:
  "parse_pr_summary (str_strip ''Summary: Adds a cache\<newline>Impact: High\<newline>Testing Notes: run all'') =
     \<lparr>summary = ''Adds a cache'', impact = ''High'',
      testing_notes = ''Standard testing procedures apply''\<rparr>"
  by (simp add: pr_eval string_eval)

end
